theory Spec2Isabelle
  imports Main "HOL-Library.Sublist" "HOL-Library.Option_ord"
begin

section \<open>Python string operations used by the handlers\<close>

text \<open>
  Strings are byte lists. \<open>str.lower\<close> is modelled on the ASCII letters and
  \<open>str.strip\<close> on the ASCII white space that Python strips.
\<close>

definition lower_char :: "char \<Rightarrow> char" where
  "lower_char c =
     (case map_of (zip ''ABCDEFGHIJKLMNOPQRSTUVWXYZ'' ''abcdefghijklmnopqrstuvwxyz'') c of
        Some d \<Rightarrow> d
      | None \<Rightarrow> c)"

definition lower :: "string \<Rightarrow> string" where
  "lower s = map lower_char s"

definition is_space :: "char \<Rightarrow> bool" where
  "is_space c = (let n = (of_char c :: nat) in n = 32 \<or> (9 \<le> n \<and> n \<le> 13) \<or> (28 \<le> n \<and> n \<le> 31))"

definition strip :: "string \<Rightarrow> string" where
  "strip s = rev (dropWhile is_space (rev (dropWhile is_space s)))"

text \<open>Python's \<open>needle in haystack\<close> on strings.\<close>

fun str_contains :: "string \<Rightarrow> string \<Rightarrow> bool" where
  "str_contains needle [] = (needle = [])"
| "str_contains needle (c # cs) = (prefix needle (c # cs) \<or> str_contains needle cs)"

text \<open>\<open>s.split(sep)\<close> for a one-character separator: never empty.\<close>

fun split_on :: "char \<Rightarrow> string \<Rightarrow> string list" where
  "split_on sep [] = [[]]"
| "split_on sep (c # cs) =
     (if c = sep then [] # split_on sep cs
      else (case split_on sep cs of [] \<Rightarrow> [[c]] | w # ws \<Rightarrow> (c # w) # ws))"

text \<open>\<open>s.split(sep)[0]\<close>: the text before the first separator.\<close>

definition before_sep :: "char \<Rightarrow> string \<Rightarrow> string" where
  "before_sep sep s = takeWhile (\<lambda>c. c \<noteq> sep) s"

text \<open>\<open>s.split()\<close>: the maximal runs of characters that are not white space.\<close>

fun split_ws_acc :: "string \<Rightarrow> string \<Rightarrow> string list" where
  "split_ws_acc acc [] = (if acc = [] then [] else [rev acc])"
| "split_ws_acc acc (c # cs) =
     (if is_space c then (if acc = [] then split_ws_acc [] cs else rev acc # split_ws_acc [] cs)
      else split_ws_acc (c # acc) cs)"

definition split_ws :: "string \<Rightarrow> string list" where
  "split_ws s = split_ws_acc [] s"

text \<open>Python truthiness of an optional string: \<open>None\<close> and \<open>""\<close> are falsy.\<close>

fun truthy :: "string option \<Rightarrow> bool" where
  "truthy None = False"
| "truthy (Some s) = (s \<noteq> [])"

text \<open>\<open>x or ""\<close> for an optional string.\<close>

fun or_empty :: "string option \<Rightarrow> string" where
  "or_empty None = []"
| "or_empty (Some s) = s"

text \<open>\<open>sep.join(xs)\<close>.\<close>

fun join :: "string \<Rightarrow> string list \<Rightarrow> string" where
  "join sep [] = []"
| "join sep [x] = x"
| "join sep (x # y # ys) = x @ sep @ join sep (y # ys)"

text \<open>\<open>xs[:n]\<close> for an integer \<open>n\<close>: a negative bound counts from the end.\<close>

definition py_slice_to :: "int \<Rightarrow> 'a list \<Rightarrow> 'a list" where
  "py_slice_to n xs = (if 0 \<le> n then take (nat n) xs else take (length xs - nat (- n)) xs)"

text \<open>A stable sort in descending order of the key (\<open>ORDER BY k DESC\<close>,
  \<open>list.sort(key=k, reverse=True)\<close>): ties keep their original order.\<close>

definition sort_desc :: "('a \<Rightarrow> 'k::linorder) \<Rightarrow> 'a list \<Rightarrow> 'a list" where
  "sort_desc k xs = rev (sort_key k (rev xs))"


section \<open>Notification aggregator (crm/api/notifications.py)\<close>

datatype error =
    ValidationError string
  | PermissionError string
  | TypeError string
  | TableMissing string

record nlog_row =
  nl_name :: string
  nl_subject :: "string option"
  nl_email_content :: "string option"
  nl_creation :: "int option"
  nl_type :: "string option"
  nl_document_type :: "string option"
  nl_document_name :: "string option"
  nl_for_user :: "string option"
  nl_owner :: "string option"
  nl_from_user :: "string option"
  nl_seen :: "int option"
  nl_read :: "int option"

record crm_notification =
  cn_name :: string
  cn_creation :: "int option"
  cn_from_user :: "string option"
  cn_type :: "string option"
  cn_to_user :: "string option"
  cn_read :: int
  cn_message :: "string option"
  cn_notification_text :: "string option"
  cn_notification_type_doctype :: "string option"
  cn_notification_type_doc :: "string option"
  cn_reference_doctype :: "string option"
  cn_reference_name :: "string option"

text \<open>
  The backing store as the aggregator sees it: which optional columns the
  Notification Log table has, its rows, the legacy table (\<open>None\<close> when the table
  does not exist), the users' full names, the HTML stripper of the framework, and
  the session user.
\<close>

record notif_db =
  has_seen_col :: bool
  has_read_col :: bool
  has_from_user_col :: bool
  notification_log :: "nlog_row list"
  crm_notifications :: "crm_notification list option"
  full_name_of :: "string \<Rightarrow> string option"
  strip_html :: "string \<Rightarrow> string"
  session_user :: string

datatype seen_col = SeenCol | ReadCol

definition seen_column_name :: "notif_db \<Rightarrow> seen_col option" where
  "seen_column_name db =
     (if has_seen_col db then Some SeenCol
      else if has_read_col db then Some ReadCol
      else None)"

text \<open>\<open>bool(row.get(seen_col, 0))\<close>: a NULL and a zero are both false.\<close>

fun bool_seen :: "nlog_row \<Rightarrow> seen_col option \<Rightarrow> bool" where
  "bool_seen row None = False"
| "bool_seen row (Some SeenCol) = (case nl_seen row of None \<Rightarrow> False | Some v \<Rightarrow> v \<noteq> 0)"
| "bool_seen row (Some ReadCol) = (case nl_read row of None \<Rightarrow> False | Some v \<Rightarrow> v \<noteq> 0)"

definition text_from_nlog :: "notif_db \<Rightarrow> nlog_row \<Rightarrow> string" where
  "text_from_nlog db row =
     (let txt = strip (or_empty (nl_subject row));
          txt' = (if txt = [] then strip (or_empty (nl_email_content row)) else txt);
          out = strip_html db txt'
      in if out = [] then ''Notification'' else out)"

definition looks_like_reminder :: "nlog_row \<Rightarrow> bool" where
  "looks_like_reminder row =
     (let t = lower (or_empty (nl_type row));
          subj = lower (or_empty (nl_subject row))
      in t \<in> {''reminder'', ''alert''} \<or> str_contains ''remind'' subj)"

definition map_ref_doctype :: "string option \<Rightarrow> string option" where
  "map_ref_doctype dt =
     (if truthy dt then
        (if dt = Some ''CRM Lead'' then Some ''lead''
         else if dt = Some ''CRM Deal'' then Some ''deal'' else None)
      else None)"

definition map_route :: "string option \<Rightarrow> string option" where
  "map_route dt =
     (if truthy dt then
        (if dt = Some ''CRM Lead'' then Some ''Lead''
         else if dt = Some ''CRM Deal'' then Some ''Deal'' else None)
      else None)"

datatype read_flag = ReadBool bool | ReadRaw int

record portal_dict =
  p_creation :: "int option"
  p_from_user_name :: "string option"
  p_from_user_full_name :: "string option"
  p_type :: "string option"
  p_to_user :: "string option"
  p_read :: read_flag
  p_hash :: string
  p_notification_text :: "string option"
  p_notification_type_doctype :: "string option"
  p_notification_type_doc :: "string option"
  p_reference_doctype :: "string option"
  p_reference_name :: "string option"
  p_route_name :: "string option"
  p_source :: string
  p_name :: string

definition get_full_name :: "notif_db \<Rightarrow> string option \<Rightarrow> string option" where
  "get_full_name db u = (case u of None \<Rightarrow> None | Some n \<Rightarrow> full_name_of db n)"

definition nlog_to_portal_dict :: "notif_db \<Rightarrow> nlog_row \<Rightarrow> seen_col option \<Rightarrow> portal_dict" where
  "nlog_to_portal_dict db row sc =
     (let ref_dt = nl_document_type row;
          ref_name = nl_document_name row;
          to_user = (if truthy (nl_for_user row) then nl_for_user row else nl_owner row)
      in \<lparr> p_creation = nl_creation row,
           p_from_user_name = nl_owner row,
           p_from_user_full_name = get_full_name db (nl_owner row),
           p_type = (if looks_like_reminder row then Some ''reminder''
                     else if truthy (nl_type row) then nl_type row else Some ''system''),
           p_to_user = to_user,
           p_read = ReadBool (bool_seen row sc),
           p_hash = (if looks_like_reminder row then ''#reminder'' else ''''),
           p_notification_text = Some (text_from_nlog db row),
           p_notification_type_doctype = ref_dt,
           p_notification_type_doc = ref_name,
           p_reference_doctype = map_ref_doctype ref_dt,
           p_reference_name = ref_name,
           p_route_name = map_route ref_dt,
           p_source = ''Notification Log'',
           p_name = nl_name row \<rparr>)"

text \<open>
  \<open>get_hash\<close> of the legacy rows. The rows are \<open>frappe._dict\<close>s, whose attribute
  lookup is \<open>dict.get\<close>: \<open>getattr(n, "message", "")\<close> is \<open>None\<close> for a NULL message
  and the membership test on it raises.
\<close>

definition get_hash :: "crm_notification \<Rightarrow> error + string" where
  "get_hash n =
     (let h1 = (if cn_type n = Some ''Mention'' \<and> truthy (cn_notification_type_doc n)
                then ''#'' @ or_empty (cn_notification_type_doc n) else '''');
          h2 = (if cn_type n = Some ''WhatsApp'' then ''#whatsapp'' else h1)
      in if cn_type n = Some ''Assignment'' \<and> cn_notification_type_doctype n = Some ''CRM Task''
         then (case cn_message n of
                 None \<Rightarrow> Inl (TypeError ''argument of type NoneType is not iterable'')
               | Some m \<Rightarrow> Inr (if str_contains ''has been removed by'' m then '''' else ''#tasks''))
         else Inr h2)"

subsection \<open>Reading the Notification Log\<close>

text \<open>
  The \<open>or_filters\<close> of the handlers: the user is the addressee or the owner of the
  row, or its actor when the table has a \<open>from_user\<close> column.
\<close>

definition nlog_matches :: "notif_db \<Rightarrow> string \<Rightarrow> nlog_row \<Rightarrow> bool" where
  "nlog_matches db user r =
     (nl_for_user r = Some user \<or> nl_owner r = Some user
      \<or> (has_from_user_col db \<and> nl_from_user r = Some user))"

text \<open>\<open>frappe.get_all("Notification Log", or_filters=..., order_by="creation desc",
  limit_page_length=n)\<close>.\<close>

definition get_all_nlog :: "notif_db \<Rightarrow> string \<Rightarrow> nat \<Rightarrow> nlog_row list" where
  "get_all_nlog db user n =
     take n (sort_desc nl_creation (filter (nlog_matches db user) (notification_log db)))"

definition legacy_unread :: "string \<Rightarrow> crm_notification \<Rightarrow> bool" where
  "legacy_unread user n = (cn_to_user n = Some user \<and> cn_read n = 0)"

subsection \<open>Unseen count\<close>

definition get_unseen_count_for :: "notif_db \<Rightarrow> string \<Rightarrow> nat" where
  "get_unseen_count_for db user =
     (let sc = seen_column_name db;
          rows = get_all_nlog db user 500;
          total = length (filter (\<lambda>r. \<not> bool_seen r sc) rows)
      in case crm_notifications db of
           None \<Rightarrow> total
         | Some legacy \<Rightarrow> total + length (filter (legacy_unread user) legacy))"

definition get_unseen_count :: "notif_db \<Rightarrow> nat" where
  "get_unseen_count db = get_unseen_count_for db (session_user db)"

definition get_unread_count :: "notif_db \<Rightarrow> nat" where
  "get_unread_count db = get_unseen_count db"

subsection \<open>The merged feed\<close>

text \<open>An \<open>error + 'a\<close> computation over a list that stops at the first error.\<close>

fun map_result :: "('a \<Rightarrow> error + 'b) \<Rightarrow> 'a list \<Rightarrow> error + 'b list" where
  "map_result f [] = Inr []"
| "map_result f (x # xs) =
     (case f x of
        Inl e \<Rightarrow> Inl e
      | Inr y \<Rightarrow> (case map_result f xs of Inl e \<Rightarrow> Inl e | Inr ys \<Rightarrow> Inr (y # ys)))"

definition crm_to_portal_dict :: "notif_db \<Rightarrow> crm_notification \<Rightarrow> error + portal_dict" where
  "crm_to_portal_dict db n =
     (case get_hash n of
        Inl e \<Rightarrow> Inl e
      | Inr h \<Rightarrow> Inr
          \<lparr> p_creation = cn_creation n,
            p_from_user_name = cn_from_user n,
            p_from_user_full_name = get_full_name db (cn_from_user n),
            p_type = cn_type n,
            p_to_user = cn_to_user n,
            p_read = ReadRaw (cn_read n),
            p_hash = h,
            p_notification_text = cn_notification_text n,
            p_notification_type_doctype = cn_notification_type_doctype n,
            p_notification_type_doc = cn_notification_type_doc n,
            p_reference_doctype =
              Some (if cn_reference_doctype n = Some ''CRM Deal'' then ''deal'' else ''lead''),
            p_reference_name = cn_reference_name n,
            p_route_name =
              Some (if cn_reference_doctype n = Some ''CRM Deal'' then ''Deal'' else ''Lead''),
            p_source = ''CRM Notification'',
            p_name = cn_name n \<rparr>)"

text \<open>
  \<open>_list_crm_notifications\<close>: the query has no guard for a missing table, so it
  raises there.
\<close>

definition list_crm_notifications :: "notif_db \<Rightarrow> int \<Rightarrow> error + portal_dict list" where
  "list_crm_notifications db limit =
     (case crm_notifications db of
        None \<Rightarrow> Inl (TableMissing ''CRM Notification'')
      | Some legacy \<Rightarrow>
          (let notifications =
                 sort_desc cn_creation (filter (\<lambda>n. cn_to_user n = Some (session_user db)) legacy)
           in map_result (crm_to_portal_dict db) (py_slice_to limit notifications)))"

text \<open>
  The sort key of \<open>list_portal_notifications\<close> is
  \<open>x.get("creation") or frappe.utils.now_datetime()\<close>: the clock is read once for each
  row without a creation time, in list order, before the rows are compared.
  \<open>clock k\<close> is the \<open>k\<close>-th reading of the call.
\<close>

fun with_sort_keys :: "(nat \<Rightarrow> int) \<Rightarrow> nat \<Rightarrow> portal_dict list \<Rightarrow> (int \<times> portal_dict) list" where
  "with_sort_keys clock k [] = []"
| "with_sort_keys clock k (x # xs) =
     (case p_creation x of
        Some t \<Rightarrow> (t, x) # with_sort_keys clock k xs
      | None \<Rightarrow> (clock k, x) # with_sort_keys clock (Suc k) xs)"

definition list_portal_notifications_keyed ::
  "notif_db \<Rightarrow> (nat \<Rightarrow> int) \<Rightarrow> int \<Rightarrow> int \<Rightarrow> error + (int \<times> portal_dict) list" where
  "list_portal_notifications_keyed db clock limit include_legacy =
     (let user = session_user db;
          sc = seen_column_name db;
          base_rows = get_all_nlog db user (nat (max limit 200));
          out = map (\<lambda>r. nlog_to_portal_dict db r sc) base_rows;
          merged = (if include_legacy \<noteq> 0
                    then (case list_crm_notifications db (max limit 200) of
                            Inl e \<Rightarrow> Inl e
                          | Inr legacy \<Rightarrow> Inr (out @ legacy))
                    else Inr out)
      in case merged of
           Inl e \<Rightarrow> Inl e
         | Inr rows \<Rightarrow> Inr (py_slice_to limit (sort_desc fst (with_sort_keys clock 0 rows))))"

definition list_portal_notifications ::
  "notif_db \<Rightarrow> (nat \<Rightarrow> int) \<Rightarrow> int \<Rightarrow> int \<Rightarrow> error + portal_dict list" where
  "list_portal_notifications db clock limit include_legacy =
     (case list_portal_notifications_keyed db clock limit include_legacy of
        Inl e \<Rightarrow> Inl e
      | Inr kxs \<Rightarrow> Inr (map snd kxs))"


section \<open>Assignment authorizer (crm/fcrm/permissions)\<close>

record team =
  t_name :: string
  t_team_leader :: "string option"

text \<open>A field of the Member doctype as its meta lists it.\<close>

record member_field =
  f_fieldname :: string
  f_fieldtype :: "string option"
  f_options :: "string option"

text \<open>A row of the Member child table; \<open>m_field\<close> reads a column by name.\<close>

record member_row =
  m_parent :: "string option"
  m_parenttype :: "string option"
  m_field :: "string \<Rightarrow> string option"

record user_row =
  u_name :: string
  u_full_name :: "string option"
  u_user_image :: "string option"
  u_enabled :: int

record todo =
  td_reference_type :: "string option"
  td_reference_name :: "string option"
  td_allocated_to :: "string option"
  td_status :: "string option"

text \<open>
  The store and session as the authorizer sees them. \<open>member_meta\<close> is \<open>None\<close> when
  reading the meta of Member raises; \<open>can_read\<close> is the framework's
  \<open>frappe.has_permission(doctype, "read", name=name)\<close> for the session user.
\<close>

record crm_db =
  roles_of :: "string \<Rightarrow> string list"
  teams :: "team list"
  member_meta :: "member_field list option"
  members :: "member_row list"
  users :: "user_row list"
  todos :: "todo list"
  can_read :: "string \<Rightarrow> string \<Rightarrow> bool"
  actor :: string

definition member_user_col :: "crm_db \<Rightarrow> string \<times> string" where
  "member_user_col db =
     (case member_meta db of
        None \<Rightarrow> (''Member'', ''user'')
      | Some flds \<Rightarrow>
          (case filter (\<lambda>f. f_fieldtype f = Some ''Link'' \<and> f_options f = Some ''User'') flds of
             f # _ \<Rightarrow> (''Member'', f_fieldname f)
           | [] \<Rightarrow>
               (case filter (\<lambda>alt. alt \<in> set (map f_fieldname flds))
                       [''user'', ''member'', ''user_id'', ''user_email'', ''allocated_to''] of
                  alt # _ \<Rightarrow> (''Member'', alt)
                | [] \<Rightarrow> (''Member'', ''user''))))"

definition has_role :: "crm_db \<Rightarrow> string \<Rightarrow> string \<Rightarrow> bool" where
  "has_role db role user = (role \<in> set (roles_of db user))"

text \<open>\<open>user = user or frappe.session.user\<close>.\<close>

definition or_session_user :: "crm_db \<Rightarrow> string \<Rightarrow> string" where
  "or_session_user db user = (if user = [] then actor db else user)"

definition is_privileged :: "crm_db \<Rightarrow> string \<Rightarrow> bool" where
  "is_privileged db user =
     (let u = or_session_user db user
      in u = ''Administrator'' \<or> has_role db ''System Manager'' u)"

definition is_sales_manager :: "crm_db \<Rightarrow> string \<Rightarrow> bool" where
  "is_sales_manager db user = has_role db ''Sales Manager'' (or_session_user db user)"

definition is_sales_user :: "crm_db \<Rightarrow> string \<Rightarrow> bool" where
  "is_sales_user db user = has_role db ''Sales User'' (or_session_user db user)"

text \<open>\<open>frappe.db.get_value("Team", {"team_leader": leader}, "name")\<close>: the first team
  the leader leads.\<close>

definition team_led_by :: "crm_db \<Rightarrow> string \<Rightarrow> string option" where
  "team_led_by db leader =
     (case filter (\<lambda>t. t_team_leader t = Some leader) (teams db) of
        [] \<Rightarrow> None
      | t # _ \<Rightarrow> Some (t_name t))"

definition team_members_of :: "crm_db \<Rightarrow> string \<Rightarrow> string set" where
  "team_members_of db team_leader =
     (case team_led_by db team_leader of
        None \<Rightarrow> {}
      | Some tm \<Rightarrow>
          (if tm = [] then {}
           else
             (let col = snd (member_user_col db);
                  rows = map (\<lambda>m. m_field m col)
                           (filter (\<lambda>m. m_parent m = Some tm \<and> m_parenttype m = Some ''Team'')
                              (members db))
              in set (map or_empty (filter truthy rows)))))"




text \<open>One call of the framework's \<open>assign_to.add\<close>, as \<open>assign_lead\<close> makes it.\<close>

record assignment =
  a_doctype :: string
  a_name :: string
  a_assign_to :: "string list"
  a_description :: string
  a_notify :: int

record assign_result =
  r_ok :: bool
  r_assigned_to :: "string list"

definition add_assignment :: "assignment \<Rightarrow> assignment list \<Rightarrow> assignment list" where
  "add_assignment a st = st @ [a]"

text \<open>
  \<open>assign_lead\<close> threads the assignment records of the external subsystem: the
  result and the records after the call. A raise leaves them as they were.
\<close>

definition assign_lead ::
  "crm_db \<Rightarrow> assignment list \<Rightarrow> string \<Rightarrow> string \<Rightarrow> string list option \<Rightarrow> string option
     \<Rightarrow> (error + assign_result) \<times> assignment list" where
  "assign_lead db st doctype name users_arg description =
     (let targets = filter (\<lambda>u. u \<noteq> []) (case users_arg of None \<Rightarrow> [] | Some us \<Rightarrow> us);
          act = actor db;
          proceed = (fold (\<lambda>u. add_assignment
                       \<lparr> a_doctype = doctype, a_name = name, a_assign_to = [u],
                         a_description = or_empty description, a_notify = 1 \<rparr>) targets st)
      in if \<not> can_read db doctype name
         then (Inl (PermissionError ''Not permitted to access this document''), st)
         else if is_privileged db act
         then (Inr \<lparr> r_ok = True, r_assigned_to = targets \<rparr>, proceed)
         else if is_sales_manager db act
         then (let allowed = team_members_of db act;
                   illegal = filter (\<lambda>u. u \<notin> allowed) targets
               in if illegal \<noteq> []
                  then (Inl (PermissionError
                          (''You can only assign to your team members: '' @ join '', '' illegal)), st)
                  else (Inr \<lparr> r_ok = True, r_assigned_to = targets \<rparr>, proceed))
         else (Inl (PermissionError ''You are not allowed to assign''), st))"

record todo_doc =
  tdoc_reference_type :: "string option"
  tdoc_reference_name :: "string option"
  tdoc_owner :: "string option"
  tdoc_assigned_by :: "string option"

definition validate_todo_assignment :: "crm_db \<Rightarrow> todo_doc \<Rightarrow> error + unit" where
  "validate_todo_assignment db doc =
     (if \<not> truthy (tdoc_reference_type doc) \<or> \<not> truthy (tdoc_reference_name doc)
         \<or> \<not> truthy (tdoc_owner doc)
      then Inr ()
      else
        (let act = (if truthy (tdoc_assigned_by doc) then or_empty (tdoc_assigned_by doc)
                    else actor db)
         in if is_privileged db act then Inr ()
            else if is_sales_user db act then Inl (PermissionError ''Sales Users cannot assign'')
            else if is_sales_manager db act
                    \<and> or_empty (tdoc_owner doc) \<notin> team_members_of db act
            then Inl (PermissionError ''Managers can only assign to their team members'')
            else Inr ()))"

subsection \<open>Lead visibility (leads_permissions.py)\<close>

text \<open>
  \<open>get_permission_query_conditions\<close> returns \<open>None\<close> (no restriction) or an SQL
  condition on the rows of \<open>tabCRM Lead\<close>; the condition is modelled by the rows it
  selects, as a predicate on the name of the Lead row. SQL equality is taken as
  equality of the strings, and a NULL equals nothing.
\<close>

datatype query_condition = Unrestricted | Condition "string \<Rightarrow> bool"

definition open_todo_on :: "string \<Rightarrow> string \<Rightarrow> todo \<Rightarrow> bool" where
  "open_todo_on doctype name td =
     (td_reference_type td = Some doctype \<and> td_reference_name td = Some name
      \<and> td_status td = Some ''Open'')"

text \<open>The first \<open>EXISTS\<close>: an open ToDo on the Lead allocated to the user.\<close>

definition assigned_self :: "crm_db \<Rightarrow> string \<Rightarrow> string \<Rightarrow> bool" where
  "assigned_self db user lead =
     list_ex (\<lambda>td. open_todo_on ''CRM Lead'' lead td \<and> td_allocated_to td = Some user) (todos db)"

text \<open>The second \<open>EXISTS\<close>: Member joined with Team on the parent, joined with the
  open ToDos of the Lead, where the team's leader is the user and the ToDo is
  allocated to the member.\<close>

definition assigned_team :: "crm_db \<Rightarrow> string \<Rightarrow> string \<Rightarrow> bool" where
  "assigned_team db user lead =
     (let col = snd (member_user_col db)
      in list_ex (\<lambda>m.
           list_ex (\<lambda>t. m_parent m = Some (t_name t) \<and>
             list_ex (\<lambda>td. open_todo_on ''CRM Lead'' lead td
                        \<and> t_team_leader t = Some user
                        \<and> td_allocated_to td \<noteq> None
                        \<and> td_allocated_to td = m_field m col) (todos db))
             (teams db))
           (members db))"

definition get_permission_query_conditions :: "crm_db \<Rightarrow> string \<Rightarrow> query_condition" where
  "get_permission_query_conditions db user =
     (if user = [] \<or> user = ''Guest'' then Condition (\<lambda>lead. False)
      else if ''System Manager'' \<in> set (roles_of db user) then Unrestricted
      else Condition (\<lambda>lead. assigned_self db user lead \<or> assigned_team db user lead))"

text \<open>Whether a Lead row appears in the list results of the user.\<close>

fun row_visible :: "query_condition \<Rightarrow> string \<Rightarrow> bool" where
  "row_visible Unrestricted lead = True"
| "row_visible (Condition c) lead = c lead"

text \<open>The document handed to \<open>has_permission\<close>; \<open>d_assign\<close> is the list that the JSON
  text of \<open>_assign\<close> holds, \<open>None\<close> when the text is missing or does not parse.\<close>

record lead_doc =
  d_doctype :: string
  d_name :: string
  d_assign :: "string list option"

text \<open>The members of the teams the user leads, as the \<open>sql_list\<close> query returns them.\<close>

definition led_members :: "crm_db \<Rightarrow> string \<Rightarrow> string option list" where
  "led_members db user =
     (let col = snd (member_user_col db)
      in concat (map (\<lambda>m. map (\<lambda>t. m_field m col)
                               (filter (\<lambda>t. m_parent m = Some (t_name t)
                                           \<and> t_team_leader t = Some user) (teams db)))
                     (members db)))"

text \<open>\<open>json.loads(doc._assign or "[]")\<close>, with \<open>[]\<close> when it raises.\<close>

definition inline_assignees :: "lead_doc \<Rightarrow> string list" where
  "inline_assignees doc = (case d_assign doc of None \<Rightarrow> [] | Some l \<Rightarrow> l)"

definition has_permission :: "crm_db \<Rightarrow> lead_doc \<Rightarrow> string \<Rightarrow> string \<Rightarrow> bool" where
  "has_permission db doc ptype user =
     (if user = [] \<or> user = ''Guest'' then False
      else if ''System Manager'' \<in> set (roles_of db user) then True
      else
        (let assigned_list = inline_assignees doc
         in if user \<in> set assigned_list then True
            else if list_ex (\<lambda>td. open_todo_on (d_doctype doc) (d_name doc) td
                                  \<and> td_allocated_to td = Some user) (todos db)
            then True
            else
              (let mems = led_members db user
               in if list_ex (\<lambda>mem. truthy mem \<and> or_empty mem \<in> set assigned_list) mems
                  then True
                  else
                    (let in_tuple = filter truthy mems
                     in mems \<noteq> [] \<and> in_tuple \<noteq> []
                        \<and> list_ex (\<lambda>td. open_todo_on (d_doctype doc) (d_name doc) td
                                     \<and> td_allocated_to td \<in> set in_tuple) (todos db)))))"


section \<open>Mobile API (crm/api/mobile_api.py)\<close>

subsection \<open>Host validation and OAuth configuration\<close>

record request =
  x_forwarded_host :: "string option"
  host_header :: "string option"

text \<open>The value under \<open>"domains"\<close> in the site configuration: a list, a string, or a
  truthy value of another type, which the code skips.\<close>

datatype domains_cfg = DomainList "string list" | DomainStr string | DomainOther

record site_config =
  sc_domains :: "domains_cfg option"
  sc_host_name :: "string option"

record oauth_settings =
  client_id :: "string option"
  scope :: "string option"
  redirect_uri :: "string option"

text \<open>
  What the two OAuth functions read: the request and site of \<open>frappe.local\<close>, the
  site configuration (\<open>None\<close> when reading it raises), and for the bootstrap the
  site directory, the database, the doctypes and the stored settings.
  \<open>generated_client_id\<close> is the id the framework gives a newly inserted OAuth
  Client.
\<close>

record oauth_env =
  local_request :: "request option"
  local_site :: "string option"
  get_site_config :: "site_config option"
  site_path :: "string option"
  site_path_exists :: bool
  conf_db_name :: "string option"
  db_alive :: bool
  settings_doctype_exists :: bool
  stored_settings :: "oauth_settings option"
  oauth_client_doctype_exists :: bool
  generated_client_id :: "string option"

definition quoted :: "string \<Rightarrow> string" where
  "quoted s = CHR 0x27 # s @ [CHR 0x27]"

definition request_host :: "request \<Rightarrow> string option" where
  "request_host req =
     (if truthy (x_forwarded_host req)
      then (let h = or_empty (x_forwarded_host req)
            in if CHR '','' \<in> set h then Some (strip (before_sep CHR '','' h)) else Some h)
      else if truthy (host_header req) then host_header req
      else None)"

definition normalize_host :: "string \<Rightarrow> string" where
  "normalize_host h = strip (before_sep CHR '':'' (lower h))"

definition truthy_domains :: "domains_cfg option \<Rightarrow> bool" where
  "truthy_domains d =
     (case d of None \<Rightarrow> False | Some (DomainList l) \<Rightarrow> l \<noteq> []
      | Some (DomainStr s) \<Rightarrow> s \<noteq> [] | Some DomainOther \<Rightarrow> True)"

text \<open>The domains the site configuration names: \<open>domains\<close>, then \<open>host_name\<close>.\<close>

definition configured_domains :: "site_config \<Rightarrow> string list" where
  "configured_domains cfg =
     (let from_domains =
            (if truthy_domains (sc_domains cfg)
             then (case sc_domains cfg of
                     Some (DomainList l) \<Rightarrow> map (\<lambda>d. strip (lower d)) l
                   | Some (DomainStr ds) \<Rightarrow>
                       map (\<lambda>d. strip (lower d))
                         (split_ws (map (\<lambda>c. if c = CHR '','' then CHR '' '' else c) ds))
                   | _ \<Rightarrow> [])
             else [])
      in if truthy (sc_host_name cfg)
         then (let hn = strip (lower (or_empty (sc_host_name cfg)))
               in if hn \<in> set from_domains then from_domains else from_domains @ [hn])
         else from_domains)"

text \<open>
  The \<open>try\<close> block that computes \<open>allowed_domains\<close>: \<open>None\<close> when it raises, which a
  failing read of the configuration does, and also the \<open>frappe.throw\<close> inside the
  block, since the handler catches every \<open>Exception\<close>.
\<close>

definition allowed_domains_try :: "oauth_env \<Rightarrow> string \<Rightarrow> string \<Rightarrow> string list option" where
  "allowed_domains_try env host site_name =
     (case get_site_config env of
        None \<Rightarrow> None
      | Some cfg \<Rightarrow>
          (let allowed = configured_domains cfg
           in if allowed = []
              then (let site_name_lower = strip (lower site_name)
                    in if host = site_name_lower then Some [site_name_lower] else None)
              else Some allowed))"

definition validate_host :: "oauth_env \<Rightarrow> error + unit" where
  "validate_host env =
     (case local_request env of
        None \<Rightarrow> Inl (ValidationError
          ''Request information is not available. Please ensure you are accessing a valid Frappe site.'')
      | Some req \<Rightarrow>
          (case request_host req of
             None \<Rightarrow> Inl (ValidationError
               ''Host header is missing. Please ensure you are accessing via a valid domain.'')
           | Some raw \<Rightarrow>
               if raw = [] then Inl (ValidationError
                 ''Host header is missing. Please ensure you are accessing via a valid domain.'')
               else
                 (let host = normalize_host raw
                  in if \<not> truthy (local_site env)
                     then Inl (ValidationError
                       ''Site information is not available. Please contact system administrator.'')
                     else
                       (let site_name = or_empty (local_site env);
                            site_name_lower = strip (lower site_name)
                        in case (case allowed_domains_try env host site_name of
                                   Some allowed \<Rightarrow> Inr allowed
                                 | None \<Rightarrow>
                                     if site_name_lower \<noteq> [] \<and> host = site_name_lower
                                     then Inr [site_name_lower]
                                     else Inl (ValidationError
                                       ''Site configuration error. Access denied. Please contact administrator.''))
                           of Inl e \<Rightarrow> Inl e
                            | Inr allowed \<Rightarrow>
                                if host \<in> set allowed then Inr ()
                                else Inl (ValidationError
                                  (''Access denied: The domain '' @ quoted host
                                   @ '' is not configured for this site. Please use a valid domain for site ''
                                   @ quoted site_name @ ''.''))))))"

text \<open>
  \<open>_ensure_mobile_oauth_settings\<close>, by its result: the settings it returns or the
  error it raises. The documents it inserts on the way are not part of the result.
\<close>

definition ensure_mobile_oauth_settings :: "oauth_env \<Rightarrow> error + oauth_settings" where
  "ensure_mobile_oauth_settings env =
     (if \<not> truthy (local_site env)
      then Inl (ValidationError
        ''Site information is not available. Please ensure you are accessing a valid Frappe site.'')
      else
        (let site_name = or_empty (local_site env)
         in if truthy (site_path env) \<and> \<not> site_path_exists env
            then Inl (ValidationError
              (''Site '' @ quoted site_name @ '' is not configured in this Frappe bench. ''
               @ ''Please contact system administrator or use a valid site domain.''))
            else if \<not> truthy (conf_db_name env) \<or> \<not> db_alive env
            then Inl (ValidationError
              (''Site '' @ quoted site_name @ '' is not properly configured. ''
               @ ''Database connection failed. Please contact system administrator.''))
            else if \<not> settings_doctype_exists env
            then Inl (ValidationError
              (''Mobile OAuth Settings DocType is not available on site '' @ quoted site_name
               @ ''. Please run '' @ quoted (''bench --site '' @ site_name @ '' migrate'')
               @ '' to create it.''))
            else
              (let settings = (case stored_settings env of
                                 None \<Rightarrow> \<lparr> client_id = None, scope = None, redirect_uri = None \<rparr>
                               | Some s \<Rightarrow> s)
               in if truthy (client_id settings) then Inr settings
                  else if \<not> oauth_client_doctype_exists env
                  then Inl (ValidationError
                    ''OAuth Provider is not available on this site. Please contact system administrator.'')
                  else Inr (settings
                    \<lparr> client_id := generated_client_id env,
                      scope := Some ''all openid'',
                      redirect_uri := Some ''app.trust://oauth2redirect'' \<rparr>))))"

record oauth_config =
  cfg_client_id :: string
  cfg_scope :: string
  cfg_redirect_uri :: string

fun error_text :: "error \<Rightarrow> string" where
  "error_text (ValidationError m) = m"
| "error_text (PermissionError m) = m"
| "error_text (TypeError m) = m"
| "error_text (TableMissing m) = m"

definition get_oauth_config :: "oauth_env \<Rightarrow> error + oauth_config" where
  "get_oauth_config env =
     (case validate_host env of
        Inl e \<Rightarrow> Inl e
      | Inr _ \<Rightarrow>
          (case ensure_mobile_oauth_settings env of
             Inl e \<Rightarrow>
               if str_contains ''OAuth Provider'' (error_text e)
               then Inl (ValidationError
                 ''OAuth Provider is not available on this site. Please contact system administrator.'')
               else Inl (ValidationError
                 ''Failed to retrieve OAuth configuration. Please contact system administrator.'')
           | Inr settings \<Rightarrow>
               if \<not> truthy (client_id settings)
               then Inl (ValidationError
                 ''OAuth configuration is incomplete. Please contact system administrator.'')
               else Inr \<lparr> cfg_client_id = or_empty (client_id settings),
                          cfg_scope = (if truthy (scope settings) then or_empty (scope settings)
                                       else ''all openid''),
                          cfg_redirect_uri = (if truthy (redirect_uri settings)
                                              then or_empty (redirect_uri settings)
                                              else ''app.trust://oauth2redirect'') \<rparr>))"


subsection \<open>Tasks\<close>

record task =
  tk_name :: string
  tk_title :: "string option"
  tk_status :: "string option"
  tk_priority :: "string option"
  tk_start_date :: "string option"
  tk_due_date :: "string option"
  tk_assigned_to :: "string option"
  tk_modified :: "string option"
  tk_description :: "string option"
  tk_task_type :: "string option"

record user_doc =
  ud_name :: string
  ud_email :: "string option"
  ud_full_name :: "string option"
  ud_user_image :: "string option"
  ud_photo :: "string option"

record assignee =
  as_email :: string
  as_name :: string
  as_id :: string
  as_profile_pic :: "string option"

text \<open>The compact task; \<open>ct_due_date\<close> is \<open>None\<close> when the key is left out.\<close>

record compact_task =
  ct_name :: string
  ct_title :: string
  ct_status :: "string option"
  ct_priority :: "string option"
  ct_start_date :: "string option"
  ct_modified :: "string option"
  ct_due_date :: "string option"
  ct_assigned_to :: "assignee list"

text \<open>One condition of a filter list, \<open>[field, operator, value]\<close>.\<close>

datatype task_filter =
    FilterGE string string
  | FilterLE string string
  | FilterIn string "string list"

text \<open>
  The store and framework as the task handlers see them: the CRM Task table, the
  open and closed ToDos, the User documents (\<open>None\<close> when \<open>get_doc\<close> raises), the
  field names in the meta of CRM Task, today's date, the name and time stamp the
  framework gives an inserted document, and the store's own evaluation of a filter
  condition and of an \<open>order_by\<close> expression (as a rank of each row).
\<close>

record task_env =
  te_tasks :: "task list"
  te_todos :: "todo list"
  te_user_doc :: "string \<Rightarrow> user_doc option"
  te_meta_fields :: "string list"
  te_today :: string
  te_new_name :: string
  te_now :: string
  te_matches :: "task_filter \<Rightarrow> task \<Rightarrow> bool"
  te_order_rank :: "string \<Rightarrow> task \<Rightarrow> int"

definition safe_fields :: "task_env \<Rightarrow> string list \<Rightarrow> string list" where
  "safe_fields env want =
     filter (\<lambda>f. f \<in> set (te_meta_fields env) \<union> {''name'', ''modified''}) want"

text \<open>Python's \<open>a or b\<close> on optional strings.\<close>

definition or_else :: "string option \<Rightarrow> string option \<Rightarrow> string option" where
  "or_else a b = (if truthy a then a else b)"

definition profile_pic :: "user_doc \<Rightarrow> string option" where
  "profile_pic u =
     (if truthy (ud_user_image u) then ud_user_image u
      else if truthy (ud_photo u) then ud_photo u
      else None)"

definition user_data :: "string \<Rightarrow> user_doc \<Rightarrow> assignee" where
  "user_data email u =
     \<lparr> as_email = (if truthy (ud_email u) then or_empty (ud_email u) else email),
       as_name = (if truthy (ud_full_name u) then or_empty (ud_full_name u) else ud_name u),
       as_id = ud_name u,
       as_profile_pic = profile_pic u \<rparr>"

definition get_task_doc :: "task_env \<Rightarrow> string \<Rightarrow> task option" where
  "get_task_doc env docname =
     (case filter (\<lambda>t. tk_name t = docname) (te_tasks env) of [] \<Rightarrow> None | t # _ \<Rightarrow> Some t)"

text \<open>
  \<open>_get_assigned_users\<close> for a CRM Task: \<open>None\<close> when it raises (the task document is
  looked up and missing). The set of e-mails is kept as a list without duplicates.
\<close>

definition get_assigned_users :: "task_env \<Rightarrow> string \<Rightarrow> string \<Rightarrow> assignee list option" where
  "get_assigned_users env doctype docname =
     (let allocated = remdups (map or_empty (filter truthy
                        (map td_allocated_to
                           (filter (open_todo_on doctype docname) (te_todos env)))));
          emails = (if allocated \<noteq> [] then Some allocated
                    else (case get_task_doc env docname of
                            None \<Rightarrow> None
                          | Some d \<Rightarrow> Some (if truthy (tk_assigned_to d)
                                             then [or_empty (tk_assigned_to d)] else [])))
      in case emails of
           None \<Rightarrow> None
         | Some es \<Rightarrow>
             Some (concat (map (\<lambda>email. case te_user_doc env email of
                                           None \<Rightarrow> []
                                         | Some u \<Rightarrow> [user_data email u]) es)))"

definition get_compact_task :: "task_env \<Rightarrow> task \<Rightarrow> compact_task" where
  "get_compact_task env t =
     \<lparr> ct_name = tk_name t,
       ct_title = (if truthy (tk_title t) then or_empty (tk_title t)
                   else if truthy (tk_description t) then take 50 (or_empty (tk_description t))
                   else []),
       ct_status = tk_status t,
       ct_priority = tk_priority t,
       ct_start_date = tk_start_date t,
       ct_modified = tk_modified t,
       ct_due_date = tk_due_date t,
       ct_assigned_to =
         (case get_assigned_users env ''CRM Task'' (tk_name t) of
            None \<Rightarrow> []
          | Some assigned_users \<Rightarrow>
              if assigned_users \<noteq> [] then assigned_users
              else if truthy (tk_assigned_to t)
              then (case te_user_doc env (or_empty (tk_assigned_to t)) of
                      None \<Rightarrow> []
                    | Some u \<Rightarrow>
                        [\<lparr> as_email = (if truthy (ud_email u) then or_empty (ud_email u)
                                        else or_empty (tk_assigned_to t)),
                           as_name = (if truthy (ud_full_name u) then or_empty (ud_full_name u)
                                      else ud_name u),
                           as_id = ud_name u,
                           as_profile_pic = or_else (ud_user_image u) (or_else (ud_photo u) None) \<rparr>])
              else []) \<rparr>"

text \<open>
  \<open>create_task\<close>: the result and the environment after the call. The framework's
  \<open>insert\<close> names and stamps the document and stores it.
\<close>

definition create_task ::
  "task_env \<Rightarrow> string option \<Rightarrow> string option \<Rightarrow> string option \<Rightarrow> string option
     \<Rightarrow> string option \<Rightarrow> string option \<Rightarrow> string option \<Rightarrow> string option
     \<Rightarrow> (error + compact_task) \<times> task_env" where
  "create_task env title status priority start_date task_type description assigned_to due_date =
     (if \<not> truthy task_type then (Inl (ValidationError ''Task Type is required''), env)
      else
        (let status' = (if \<not> truthy status then Some ''Todo'' else status);
             priority' = (if \<not> truthy priority then Some ''Medium'' else priority);
             start_date' = (if \<not> truthy start_date then Some (te_today env) else start_date);
             doc = \<lparr> tk_name = te_new_name env, tk_title = title, tk_status = status',
                     tk_priority = priority', tk_start_date = start_date', tk_due_date = due_date,
                     tk_assigned_to = assigned_to, tk_modified = Some (te_now env),
                     tk_description = description, tk_task_type = task_type \<rparr>;
             env' = env \<lparr> te_tasks := te_tasks env @ [doc] \<rparr>
         in (Inr (get_compact_task env' doc), env')))"

subsection \<open>Filtered listing\<close>

text \<open>\<open>cint\<close> of a request argument: the integer it holds, \<open>0\<close> when it holds none.\<close>

fun cint :: "int option \<Rightarrow> int" where
  "cint None = 0"
| "cint (Some n) = n"

text \<open>\<open>[p.strip() for p in s.split(",") if p.strip()]\<close>.\<close>

definition csv_values :: "string \<Rightarrow> string list" where
  "csv_values s = filter (\<lambda>p. p \<noteq> []) (map strip (split_on CHR '','' s))"

definition build_filters ::
  "string option \<Rightarrow> string option \<Rightarrow> string option \<Rightarrow> string option \<Rightarrow> task_filter list" where
  "build_filters date_from date_to importance status =
     (if truthy date_from then [FilterGE ''start_date'' (or_empty date_from)] else [])
     @ (if truthy date_to then [FilterLE ''start_date'' (or_empty date_to)] else [])
     @ (if truthy importance \<and> csv_values (or_empty importance) \<noteq> []
        then [FilterIn ''priority'' (csv_values (or_empty importance))] else [])
     @ (if truthy status \<and> csv_values (or_empty status) \<noteq> []
        then [FilterIn ''status'' (csv_values (or_empty status))] else [])"

definition matching_tasks :: "task_env \<Rightarrow> task_filter list \<Rightarrow> task list" where
  "matching_tasks env flt = filter (\<lambda>t. list_all (\<lambda>f. te_matches env f t) flt) (te_tasks env)"

text \<open>A row as \<open>get_all\<close> returns it: only the fields that were asked for.\<close>

definition project_task :: "string list \<Rightarrow> task \<Rightarrow> task" where
  "project_task flds t =
     \<lparr> tk_name = tk_name t,
       tk_title = (if ''title'' \<in> set flds then tk_title t else None),
       tk_status = (if ''status'' \<in> set flds then tk_status t else None),
       tk_priority = (if ''priority'' \<in> set flds then tk_priority t else None),
       tk_start_date = (if ''start_date'' \<in> set flds then tk_start_date t else None),
       tk_due_date = (if ''due_date'' \<in> set flds then tk_due_date t else None),
       tk_assigned_to = (if ''assigned_to'' \<in> set flds then tk_assigned_to t else None),
       tk_modified = (if ''modified'' \<in> set flds then tk_modified t else None),
       tk_description = (if ''description'' \<in> set flds then tk_description t else None),
       tk_task_type = None \<rparr>"

text \<open>
  \<open>frappe.get_all("CRM Task", filters, fields, order_by, limit_start, limit_page_length)\<close>.
  The store is taken to reject a negative offset or page length, as the \<open>LIMIT\<close>
  clause of its query does.
\<close>

definition get_all_tasks ::
  "task_env \<Rightarrow> task_filter list \<Rightarrow> string list \<Rightarrow> string \<Rightarrow> int \<Rightarrow> int \<Rightarrow> error + task list" where
  "get_all_tasks env flt flds order_by limit_start limit_page_length =
     (if limit_start < 0 \<or> limit_page_length < 0
      then Inl (ValidationError ''invalid LIMIT'')
      else Inr (map (project_task flds)
             (take (nat limit_page_length)
                (drop (nat limit_start)
                   (sort_key (te_order_rank env order_by) (matching_tasks env flt))))))"

definition count_tasks :: "task_env \<Rightarrow> task_filter list \<Rightarrow> int" where
  "count_tasks env flt = int (length (matching_tasks env flt))"

record task_page =
  pg_data :: "compact_task list"
  pg_page :: int
  pg_page_size :: int
  pg_total :: int
  pg_has_next :: bool

definition effective_limit :: "int option \<Rightarrow> int" where
  "effective_limit limit = (if cint limit = 0 then 20 else cint limit)"

definition effective_page :: "int option \<Rightarrow> int" where
  "effective_page page = (let p = (if cint page = 0 then 1 else cint page) in if p < 1 then 1 else p)"

definition filter_tasks ::
  "task_env \<Rightarrow> string option \<Rightarrow> string option \<Rightarrow> string option \<Rightarrow> string option
     \<Rightarrow> int option \<Rightarrow> int option \<Rightarrow> string \<Rightarrow> error + task_page" where
  "filter_tasks env date_from date_to importance status limit page order_by =
     (let lim = effective_limit limit;
          pg = effective_page page;
          start = (pg - 1) * lim;
          flt = build_filters date_from date_to importance status;
          flds = safe_fields env [''name'', ''title'', ''status'', ''priority'', ''start_date'',
                   ''due_date'', ''assigned_to'', ''modified'', ''description'']
      in case get_all_tasks env flt flds order_by start lim of
           Inl e \<Rightarrow> Inl e
         | Inr tasks \<Rightarrow>
             (let total = count_tasks env flt;
                  data = map (get_compact_task env) tasks
              in Inr \<lparr> pg_data = data, pg_page = pg, pg_page_size = lim, pg_total = total,
                        pg_has_next = (start + int (length data) < total) \<rparr>))"


section \<open>Notions used to state the properties\<close>

subsection \<open>Notifications\<close>

text \<open>The unseen rows of the log that the handlers relate to a user: the rows the
  \<open>or_filters\<close> select whose normalized flag is false.\<close>

definition unseen_log_count :: "notif_db \<Rightarrow> string \<Rightarrow> nat" where
  "unseen_log_count db user =
     length (filter (\<lambda>r. nlog_matches db user r \<and> \<not> bool_seen r (seen_column_name db))
               (notification_log db))"

text \<open>The unseen rows owned by or addressed to a user, whatever their number.\<close>

definition owned_or_addressed_unseen :: "notif_db \<Rightarrow> string \<Rightarrow> nat" where
  "owned_or_addressed_unseen db user =
     length (filter (\<lambda>r. (nl_owner r = Some user \<or> nl_for_user r = Some user)
                          \<and> \<not> bool_seen r (seen_column_name db))
               (notification_log db))"

definition unread_legacy_count :: "notif_db \<Rightarrow> string \<Rightarrow> nat" where
  "unread_legacy_count db user =
     (case crm_notifications db of
        None \<Rightarrow> 0
      | Some legacy \<Rightarrow> length (filter (legacy_unread user) legacy))"

text \<open>The names of the rows a feed call returns, \<open>[]\<close> when it raises.\<close>

definition feed_names :: "error + portal_dict list \<Rightarrow> string list" where
  "feed_names r = (case r of Inl e \<Rightarrow> [] | Inr out \<Rightarrow> map p_name out)"

subsection \<open>Assignment\<close>

text \<open>The users a request lists, without the empty entries, and the records one
  call per user leaves.\<close>

definition listed_users :: "string list option \<Rightarrow> string list" where
  "listed_users users_arg =
     filter (\<lambda>u. u \<noteq> []) (case users_arg of None \<Rightarrow> [] | Some us \<Rightarrow> us)"

definition assignments_for ::
  "string \<Rightarrow> string \<Rightarrow> string option \<Rightarrow> string list \<Rightarrow> assignment list" where
  "assignments_for doctype name description us =
     map (\<lambda>u. \<lparr> a_doctype = doctype, a_name = name, a_assign_to = [u],
                 a_description = or_empty description, a_notify = 1 \<rparr>) us"


text \<open>A user holds an open assignment on a document: an open ToDo on it is allocated
  to the user.\<close>

definition holds_open_assignment :: "crm_db \<Rightarrow> string \<Rightarrow> string \<Rightarrow> string \<Rightarrow> bool" where
  "holds_open_assignment db doctype name u =
     list_ex (\<lambda>td. open_todo_on doctype name td \<and> td_allocated_to td = Some u) (todos db)"

text \<open>A value that the join of Member with the teams the user leads returns: the
  user link of a Member row whose parent is the name of such a team.\<close>

definition join_returns_member :: "crm_db \<Rightarrow> string \<Rightarrow> string \<Rightarrow> bool" where
  "join_returns_member db user v =
     list_ex (\<lambda>t. t_team_leader t = Some user
                \<and> list_ex (\<lambda>m. m_parent m = Some (t_name t)
                              \<and> m_field m (snd (member_user_col db)) = Some v) (members db))
       (teams db)"

text \<open>A member of a team the user leads, as the roster of the authorizer has it: a
  named user linked by a Member row that is a child of the Team.\<close>

definition member_of_led_team :: "crm_db \<Rightarrow> string \<Rightarrow> string \<Rightarrow> bool" where
  "member_of_led_team db user v =
     (v \<noteq> []
      \<and> list_ex (\<lambda>t. t_team_leader t = Some user
                \<and> list_ex (\<lambda>m. m_parent m = Some (t_name t)
                              \<and> m_parenttype m = Some ''Team''
                              \<and> m_field m (snd (member_user_col db)) = Some v) (members db))
           (teams db))"

text \<open>Every Member row filed under a team the user leads is a child of the Team and
  does not link the empty user.\<close>

definition led_rows_are_roster_rows :: "crm_db \<Rightarrow> string \<Rightarrow> bool" where
  "led_rows_are_roster_rows db user =
     list_all (\<lambda>t. t_team_leader t \<noteq> Some user
                 \<or> list_all (\<lambda>m. m_parent m \<noteq> Some (t_name t)
                                 \<or> (m_parenttype m = Some ''Team''
                                     \<and> m_field m (snd (member_user_col db)) \<noteq> Some []))
                      (members db))
       (teams db)"

subsection \<open>Host validation\<close>

text \<open>The normalized host of the request, when the request has one.\<close>

definition host_of_request :: "oauth_env \<Rightarrow> string option" where
  "host_of_request env =
     (case local_request env of
        None \<Rightarrow> None
      | Some req \<Rightarrow>
          (case request_host req of
             None \<Rightarrow> None
           | Some raw \<Rightarrow> if raw = [] then None else Some (normalize_host raw)))"

text \<open>The domains the site configuration names, none when it cannot be read.\<close>

definition explicitly_configured :: "oauth_env \<Rightarrow> string list" where
  "explicitly_configured env =
     (case get_site_config env of None \<Rightarrow> [] | Some cfg \<Rightarrow> configured_domains cfg)"

definition site_name_lower :: "oauth_env \<Rightarrow> string" where
  "site_name_lower env = strip (lower (or_empty (local_site env)))"

text \<open>
  The hosts that pass: a configured domain, or the site name itself when no domain
  is configured.
\<close>

definition host_accepted :: "oauth_env \<Rightarrow> bool" where
  "host_accepted env =
     (case host_of_request env of
        None \<Rightarrow> False
      | Some h \<Rightarrow>
          truthy (local_site env)
          \<and> (h \<in> set (explicitly_configured env)
              \<or> (explicitly_configured env = [] \<and> h = site_name_lower env
                  \<and> (get_site_config env \<noteq> None \<or> site_name_lower env \<noteq> []))))"


section \<open>Example stores\<close>

definition reminder_row :: nlog_row where
  "reminder_row =
     \<lparr> nl_name = ''NL-1'', nl_subject = Some ''Please REMIND the client'',
       nl_email_content = None, nl_creation = Some 10, nl_type = Some ''Mention'',
       nl_document_type = Some ''CRM Lead'', nl_document_name = Some ''L1'',
       nl_for_user = Some ''ann@example.com'', nl_owner = Some ''bob@example.com'',
       nl_from_user = None, nl_seen = Some 0, nl_read = None \<rparr>"

definition plain_row :: nlog_row where
  "plain_row =
     \<lparr> nl_name = ''NL-2'', nl_subject = Some ''New lead'',
       nl_email_content = None, nl_creation = Some 30, nl_type = Some ''Alert'',
       nl_document_type = None, nl_document_name = None,
       nl_for_user = Some ''ann@example.com'', nl_owner = Some ''ann@example.com'',
       nl_from_user = None, nl_seen = Some 1, nl_read = None \<rparr>"

definition undated_row :: nlog_row where
  "undated_row =
     \<lparr> nl_name = ''NL-3'', nl_subject = None,
       nl_email_content = Some ''Hello'', nl_creation = None, nl_type = None,
       nl_document_type = None, nl_document_name = None,
       nl_for_user = None, nl_owner = Some ''ann@example.com'',
       nl_from_user = None, nl_seen = None, nl_read = None \<rparr>"

definition legacy_row :: crm_notification where
  "legacy_row =
     \<lparr> cn_name = ''CN-1'', cn_creation = Some 20, cn_from_user = Some ''bob@example.com'',
       cn_type = Some ''Mention'', cn_to_user = Some ''ann@example.com'', cn_read = 0,
       cn_message = None, cn_notification_text = Some ''mentioned you'',
       cn_notification_type_doctype = Some ''CRM Lead'',
       cn_notification_type_doc = Some ''L1'', cn_reference_doctype = Some ''CRM Lead'',
       cn_reference_name = Some ''L1'' \<rparr>"

definition feed_db :: notif_db where
  "feed_db =
     \<lparr> has_seen_col = True, has_read_col = False, has_from_user_col = False,
       notification_log = [reminder_row, plain_row, undated_row],
       crm_notifications = Some [legacy_row],
       full_name_of = (\<lambda>u. None), strip_html = (\<lambda>s. s),
       session_user = ''ann@example.com'' \<rparr>"

text \<open>A user with 501 unseen rows in the log, under 501 names, and no legacy row.\<close>

definition crowded_rows :: "nlog_row list" where
  "crowded_rows =
     map (\<lambda>n. reminder_row \<lparr> nl_name := replicate (Suc n) CHR ''n'' \<rparr>) [0..<501]"

definition crowded_db :: notif_db where
  "crowded_db = feed_db \<lparr> notification_log := crowded_rows, crm_notifications := Some [] \<rparr>"

definition user_member :: "string \<Rightarrow> string \<Rightarrow> member_row" where
  "user_member tm u =
     \<lparr> m_parent = Some tm, m_parenttype = Some ''Team'',
       m_field = (\<lambda>c. if c = ''user'' then Some u else None) \<rparr>"

text \<open>A manager who leads a team of two, and a lead with an open ToDo of one of them.\<close>

definition team_db :: crm_db where
  "team_db =
     \<lparr> roles_of = (\<lambda>u. if u = ''mgr@example.com'' then [''Sales Manager'']
                        else if u = ''root@example.com'' then [''System Manager'']
                        else [''Sales User'']),
       teams = [\<lparr> t_name = ''North'', t_team_leader = Some ''mgr@example.com'' \<rparr>],
       member_meta = Some [\<lparr> f_fieldname = ''user'', f_fieldtype = Some ''Link'',
                              f_options = Some ''User'' \<rparr>],
       members = [user_member ''North'' ''rep1@example.com'',
                  user_member ''North'' ''rep2@example.com''],
       users = [\<lparr> u_name = ''rep1@example.com'', u_full_name = Some ''Rep One'',
                   u_user_image = None, u_enabled = 1 \<rparr>,
                \<lparr> u_name = ''rep2@example.com'', u_full_name = Some ''Rep Two'',
                   u_user_image = None, u_enabled = 0 \<rparr>,
                \<lparr> u_name = ''else@example.com'', u_full_name = None,
                   u_user_image = None, u_enabled = 1 \<rparr>],
       todos = [\<lparr> td_reference_type = Some ''CRM Lead'', td_reference_name = Some ''L1'',
                   td_allocated_to = Some ''rep1@example.com'', td_status = Some ''Open'' \<rparr>],
       can_read = (\<lambda>dt n. True),
       actor = ''mgr@example.com'' \<rparr>"

text \<open>The same manager without read permission on the documents.\<close>

definition unreadable_db :: crm_db where
  "unreadable_db = team_db \<lparr> can_read := (\<lambda>dt n. False) \<rparr>"

text \<open>The same store with one Member row filed under the team's name that is not a
  child of the Team.\<close>

definition stray_row_db :: crm_db where
  "stray_row_db =
     team_db \<lparr> members := [\<lparr> m_parent = Some ''North'', m_parenttype = Some ''Other'',
                               m_field = (\<lambda>c. if c = ''user'' then Some ''rep1@example.com''
                                               else None) \<rparr>] \<rparr>"

text \<open>A store in which an open ToDo on a lead is allocated to the Guest user.\<close>

definition guest_db :: crm_db where
  "guest_db =
     team_db \<lparr> roles_of := (\<lambda>u. [''Guest'']),
               todos := [\<lparr> td_reference_type = Some ''CRM Lead'', td_reference_name = Some ''L1'',
                            td_allocated_to = Some ''Guest'', td_status = Some ''Open'' \<rparr>] \<rparr>"

definition lead_L1 :: lead_doc where
  "lead_L1 = \<lparr> d_doctype = ''CRM Lead'', d_name = ''L1'', d_assign = None \<rparr>"

definition stored_oauth :: oauth_settings where
  "stored_oauth = \<lparr> client_id = Some ''abc123'', scope = None, redirect_uri = None \<rparr>"

text \<open>A site that names one domain, asked under that domain.\<close>

definition configured_env :: oauth_env where
  "configured_env =
     \<lparr> local_request = Some \<lparr> x_forwarded_host = None,
                              host_header = Some ''Portal.Example.com:443'' \<rparr>,
       local_site = Some ''crm.example.com'',
       get_site_config = Some \<lparr> sc_domains = Some (DomainList [''portal.example.com'']),
                                sc_host_name = None \<rparr>,
       site_path = Some ''/bench/sites/crm.example.com'', site_path_exists = True,
       conf_db_name = Some ''db1'', db_alive = True, settings_doctype_exists = True,
       stored_settings = Some stored_oauth, oauth_client_doctype_exists = True,
       generated_client_id = Some ''new456'' \<rparr>"

text \<open>A site that names no domain, asked under its own site name.\<close>

definition bare_site_env :: oauth_env where
  "bare_site_env =
     configured_env
       \<lparr> local_request := Some \<lparr> x_forwarded_host = None,
                                 host_header = Some ''crm.example.com'' \<rparr>,
         get_site_config := Some \<lparr> sc_domains = None, sc_host_name = None \<rparr> \<rparr>"

definition numbered_task :: "string \<Rightarrow> task" where
  "numbered_task n =
     \<lparr> tk_name = n, tk_title = Some n, tk_status = Some ''Todo'', tk_priority = Some ''High'',
       tk_start_date = Some ''2025-01-01'', tk_due_date = None, tk_assigned_to = None,
       tk_modified = Some ''2025-01-01 10:00:00'', tk_description = None,
       tk_task_type = Some ''Call'' \<rparr>"

definition five_tasks_env :: task_env where
  "five_tasks_env =
     \<lparr> te_tasks = map numbered_task [''T1'', ''T2'', ''T3'', ''T4'', ''T5''],
       te_todos = [], te_user_doc = (\<lambda>u. None),
       te_meta_fields = [''title'', ''status'', ''priority'', ''start_date'', ''task_type''],
       te_today = ''2025-01-02'', te_new_name = ''T6'', te_now = ''2025-01-02 09:00:00'',
       te_matches = (\<lambda>f t. True), te_order_rank = (\<lambda>ob t. 0) \<rparr>"


section \<open>General lemmas\<close>

lemma lower_reminder: "lower ''reminder'' = ''reminder''"
  by (simp add: lower_def lower_char_def)

lemma length_sort_desc: "length (sort_desc k xs) = length xs"
  by (simp add: sort_desc_def)

lemma set_sort_desc: "set (sort_desc k xs) = set xs"
  by (simp add: sort_desc_def)

lemma length_filter_sort_desc:
  "length (filter P (sort_desc k xs)) = length (filter P xs)"
proof -
  have "filter P (sort_desc k xs) = rev (sort_key k (filter P (rev xs)))"
    by (simp add: sort_desc_def filter_sort flip: rev_filter)
  moreover have "length (filter P (rev xs)) = length (filter P xs)"
    by (simp flip: rev_filter)
  ultimately show ?thesis by simp
qed

lemma sort_desc_nonincreasing: "sorted_wrt (\<lambda>a b. k b \<le> k a) (sort_desc k xs)"
proof -
  have "sorted (map k (sort_key k (rev xs)))" by simp
  then have "sorted_wrt (\<lambda>a b. k a \<le> k b) (sort_key k (rev xs))"
    by (simp add: sorted_map)
  then show ?thesis
    by (simp add: sort_desc_def sorted_wrt_rev)
qed

lemma sort_desc_constant_key:
  assumes "\<forall>x\<in>set xs. k x = c"
  shows "sort_desc k xs = xs"
proof -
  have "map k (rev xs) = map (\<lambda>x. c) (rev xs)"
    using assms by (intro map_cong) simp_all
  then have "map k (rev xs) = replicate (length xs) c"
    by (simp add: map_replicate_const)
  then have "sorted (map k (rev xs))" by (simp add: sorted_replicate)
  then have "sort_key k (rev xs) = rev xs"
    by (rule sort_key_id_if_sorted)
  then show ?thesis by (simp add: sort_desc_def)
qed

lemma filter_all: "\<forall>x\<in>set xs. P x \<Longrightarrow> filter P xs = xs"
  by (induction xs) simp_all

lemma py_slice_to_take: "\<exists>m. py_slice_to n xs = take m xs"
  by (auto simp: py_slice_to_def)

lemma length_py_slice_to: "0 \<le> n \<Longrightarrow> int (length (py_slice_to n xs)) \<le> n"
  by (simp add: py_slice_to_def)


section \<open>Notification aggregator: properties\<close>

subsection \<open>The reminder override\<close>

lemma declared_type_kept:
  "\<not> looks_like_reminder row \<Longrightarrow>
     p_type (nlog_to_portal_dict db row sc)
       = (if truthy (nl_type row) then nl_type row else Some ''system'')"
  by (simp add: nlog_to_portal_dict_def Let_def)

text \<open>
  Claim C8. A row of the Notification Log is displayed with the type \<open>reminder\<close>
  exactly when its declared type, lowercased, is \<open>reminder\<close> or \<open>alert\<close>, or its subject,
  lowercased, contains \<open>remind\<close>. The override is in the returned dictionary only:
  \<open>nlog_to_portal_dict\<close> reads the row and has no store to write to.
\<close>

theorem reminder_type_iff:
  "(p_type (nlog_to_portal_dict db row sc) = Some ''reminder'')
     = (lower (or_empty (nl_type row)) = ''reminder''
        \<or> lower (or_empty (nl_type row)) = ''alert''
        \<or> str_contains ''remind'' (lower (or_empty (nl_subject row))))"
proof (cases "looks_like_reminder row")
  case True
  then show ?thesis
    by (simp add: nlog_to_portal_dict_def looks_like_reminder_def Let_def)
next
  case False
  then have no: "lower (or_empty (nl_type row)) \<noteq> ''reminder''"
    by (simp add: looks_like_reminder_def Let_def)
  have "nl_type row \<noteq> Some ''reminder''"
  proof
    assume "nl_type row = Some ''reminder''"
    then have "lower (or_empty (nl_type row)) = ''reminder''"
      by (simp add: lower_reminder)
    with no show False by simp
  qed
  with False show ?thesis
    by (simp add: nlog_to_portal_dict_def looks_like_reminder_def Let_def)
qed

theorem reminder_type_iff_witness:
  "p_type (nlog_to_portal_dict feed_db reminder_row (Some SeenCol)) = Some ''reminder''
   \<and> p_type (nlog_to_portal_dict feed_db undated_row (Some SeenCol)) \<noteq> Some ''reminder''"
proof -
  have a: "str_contains ''remind'' (lower (or_empty (nl_subject reminder_row)))"
    by (simp add: reminder_row_def lower_def lower_char_def)
  have b: "\<not> (lower (or_empty (nl_type undated_row)) = ''reminder''
              \<or> lower (or_empty (nl_type undated_row)) = ''alert''
              \<or> str_contains ''remind'' (lower (or_empty (nl_subject undated_row))))"
    by (simp add: undated_row_def lower_def)
  show ?thesis
    using a b reminder_type_iff [of feed_db reminder_row "Some SeenCol"]
      reminder_type_iff [of feed_db undated_row "Some SeenCol"]
    by simp
qed

subsection \<open>Unseen count\<close>

lemma unseen_count_for_eq:
  "get_unseen_count_for db user =
     length (filter (\<lambda>r. \<not> bool_seen r (seen_column_name db)) (get_all_nlog db user 500))
       + unread_legacy_count db user"
  by (simp add: get_unseen_count_for_def unread_legacy_count_def Let_def split: option.splits)

text \<open>
  Claim C3, as amended. \<open>get_unseen_count\<close> scans the 500 most recent log rows of
  the session user (rows of which the user is addressee or owner, or actor when the
  table has that column), so the log never adds more than 500. When the user has at
  most 500 such rows, the result is \<open>N + M\<close>: \<open>N\<close> the rows among them whose normalized
  flag is false, \<open>M\<close> the unread legacy rows addressed to the user (none when the
  legacy table does not exist).
\<close>

theorem unseen_count_is_sum:
  "get_unseen_count db \<le> 500 + unread_legacy_count db (session_user db)
   \<and> (length (filter (nlog_matches db (session_user db)) (notification_log db)) \<le> 500
        \<longrightarrow> get_unseen_count db
              = unseen_log_count db (session_user db) + unread_legacy_count db (session_user db))"
proof (intro conjI impI)
  let ?u = "session_user db"
  let ?sc = "seen_column_name db"
  have "length (filter (\<lambda>r. \<not> bool_seen r ?sc) (get_all_nlog db ?u 500))
          \<le> length (get_all_nlog db ?u 500)"
    by (rule length_filter_le)
  also have "\<dots> \<le> 500" by (simp add: get_all_nlog_def)
  finally show "get_unseen_count db \<le> 500 + unread_legacy_count db ?u"
    by (simp add: get_unseen_count_def unseen_count_for_eq)
next
  let ?u = "session_user db"
  let ?sc = "seen_column_name db"
  let ?rel = "filter (nlog_matches db ?u) (notification_log db)"
  assume le: "length ?rel \<le> 500"
  then have "get_all_nlog db ?u 500 = sort_desc nl_creation ?rel"
    by (simp add: get_all_nlog_def length_sort_desc)
  then have "length (filter (\<lambda>r. \<not> bool_seen r ?sc) (get_all_nlog db ?u 500))
               = length (filter (\<lambda>r. \<not> bool_seen r ?sc) ?rel)"
    by (simp add: length_filter_sort_desc)
  also have "\<dots> = unseen_log_count db ?u"
    by (simp add: unseen_log_count_def conj_commute)
  finally show "get_unseen_count db = unseen_log_count db ?u + unread_legacy_count db ?u"
    by (simp add: get_unseen_count_def unseen_count_for_eq)
qed

lemma feed_db_related:
  "filter (nlog_matches feed_db ''ann@example.com'') (notification_log feed_db)
     = [reminder_row, plain_row, undated_row]"
  by (simp add: feed_db_def nlog_matches_def reminder_row_def plain_row_def undated_row_def)

theorem unseen_count_is_sum_witness:
  "length (filter (nlog_matches feed_db (session_user feed_db)) (notification_log feed_db)) \<le> 500
   \<and> get_unseen_count feed_db = 2 + 1"
proof -
  have u: "session_user feed_db = ''ann@example.com''" by (simp add: feed_db_def)
  have h: "length (filter (nlog_matches feed_db (session_user feed_db))
                     (notification_log feed_db)) \<le> 500"
    by (simp add: u feed_db_related)
  have n: "unseen_log_count feed_db ''ann@example.com'' = 2"
    by (simp add: unseen_log_count_def feed_db_def nlog_matches_def seen_column_name_def
          reminder_row_def plain_row_def undated_row_def)
  have m: "unread_legacy_count feed_db ''ann@example.com'' = 1"
    by (simp add: unread_legacy_count_def feed_db_def legacy_unread_def legacy_row_def)
  show ?thesis
    using unseen_count_is_sum [of feed_db] h n m u by simp
qed

text \<open>
  With 501 unseen rows addressed to the user and no legacy row, the count is 500,
  not 501.
\<close>

theorem unseen_count_cap_counterexample:
  "owned_or_addressed_unseen crowded_db ''ann@example.com'' = 501
   \<and> unread_legacy_count crowded_db ''ann@example.com'' = 0
   \<and> session_user crowded_db = ''ann@example.com''
   \<and> get_unseen_count crowded_db = 500"
proof -
  let ?sc = "seen_column_name crowded_db"
  have rows: "\<forall>r\<in>set crowded_rows.
                 nl_for_user r = Some ''ann@example.com'' \<and> nl_creation r = Some 10
                 \<and> \<not> bool_seen r ?sc"
    by (auto simp: crowded_rows_def reminder_row_def seen_column_name_def crowded_db_def
          feed_db_def)
  have len: "length crowded_rows = 501" by (simp add: crowded_rows_def)
  have l: "notification_log crowded_db = crowded_rows"
    by (simp add: crowded_db_def)
  have u: "session_user crowded_db = ''ann@example.com''"
    by (simp add: crowded_db_def feed_db_def)
  have "filter (\<lambda>r. (nl_owner r = Some ''ann@example.com''
                      \<or> nl_for_user r = Some ''ann@example.com'') \<and> \<not> bool_seen r ?sc)
          crowded_rows = crowded_rows"
    using rows by (intro filter_all) simp
  then have 1: "owned_or_addressed_unseen crowded_db ''ann@example.com'' = 501"
    by (simp add: owned_or_addressed_unseen_def l len)
  have 2: "unread_legacy_count crowded_db ''ann@example.com'' = 0"
    by (simp add: unread_legacy_count_def crowded_db_def)
  have m: "filter (nlog_matches crowded_db ''ann@example.com'') crowded_rows = crowded_rows"
    using rows by (intro filter_all) (simp add: nlog_matches_def)
  have s: "sort_desc nl_creation crowded_rows = crowded_rows"
    using rows by (intro sort_desc_constant_key [where c = "Some 10"]) simp
  have g: "get_all_nlog crowded_db ''ann@example.com'' 500 = take 500 crowded_rows"
    by (simp add: get_all_nlog_def l m s)
  have "\<forall>r\<in>set (take 500 crowded_rows). \<not> bool_seen r ?sc"
    using rows by (meson in_set_takeD)
  then have "filter (\<lambda>r. \<not> bool_seen r ?sc) (take 500 crowded_rows) = take 500 crowded_rows"
    by (rule filter_all)
  then have 3: "get_unseen_count crowded_db = 500"
    using 2 by (simp add: get_unseen_count_def u unseen_count_for_eq g len)
  from 1 2 u 3 show ?thesis by simp
qed

text \<open>
  Claim C10. \<open>get_unread_count\<close> returns what \<open>get_unseen_count\<close> returns, for every
  store and session user.
\<close>

theorem unread_count_is_unseen_count:
  "get_unread_count db = get_unseen_count db
   \<and> get_unread_count db = get_unseen_count_for db (session_user db)"
  by (simp add: get_unread_count_def get_unseen_count_def)

theorem unread_count_is_unseen_count_witness:
  "get_unread_count feed_db = get_unseen_count feed_db"
  using unread_count_is_unseen_count [of feed_db] by simp

subsection \<open>The merged feed\<close>

lemma map_snd_with_sort_keys: "map snd (with_sort_keys clock k xs) = xs"
  by (induction xs arbitrary: k) (auto split: option.splits)

lemma key_of_with_sort_keys:
  "(key, x) \<in> set (with_sort_keys clock k xs) \<Longrightarrow>
     (case p_creation x of Some t \<Rightarrow> key = t | None \<Rightarrow> (\<exists>i. key = clock i))"
  by (induction xs arbitrary: k) (auto split: option.splits)

lemma portal_feed_returns:
  "include_legacy = 0 \<Longrightarrow>
     \<exists>kxs. list_portal_notifications_keyed db clock limit include_legacy = Inr kxs"
  by (simp add: list_portal_notifications_keyed_def Let_def)

text \<open>
  Claim C4, as amended. The array \<open>list_portal_notifications\<close> returns is in
  non-increasing order of the sort key, whichever table a row came from; the key of
  a row is its creation time, or a reading of the clock when it has none. When the
  requested limit is not negative, the array has at most that many rows.
\<close>

theorem portal_feed_sorted_and_bounded:
  assumes "list_portal_notifications_keyed db clock limit include_legacy = Inr kxs"
  shows "list_portal_notifications db clock limit include_legacy = Inr (map snd kxs)
         \<and> sorted_wrt (\<lambda>a b. fst b \<le> fst a) kxs
         \<and> (\<forall>(key, x) \<in> set kxs.
               case p_creation x of Some t \<Rightarrow> key = t | None \<Rightarrow> (\<exists>i. key = clock i))
         \<and> (0 \<le> limit \<longrightarrow> int (length kxs) \<le> limit)"
proof -
  from assms obtain rows where
    kxs: "kxs = py_slice_to limit (sort_desc fst (with_sort_keys clock 0 rows))"
    by (auto simp: list_portal_notifications_keyed_def Let_def split: sum.splits if_splits)
  obtain m where m: "kxs = take m (sort_desc fst (with_sort_keys clock 0 rows))"
    using py_slice_to_take kxs by metis
  have 1: "list_portal_notifications db clock limit include_legacy = Inr (map snd kxs)"
    using assms by (simp add: list_portal_notifications_def)
  have 2: "sorted_wrt (\<lambda>a b. fst b \<le> fst a) kxs"
    unfolding m by (rule sorted_wrt_take) (rule sort_desc_nonincreasing)
  have 3: "\<forall>(key, x) \<in> set kxs.
               case p_creation x of Some t \<Rightarrow> key = t | None \<Rightarrow> (\<exists>i. key = clock i)"
  proof (clarify)
    fix key x assume "(key, x) \<in> set kxs"
    then have "(key, x) \<in> set (with_sort_keys clock 0 rows)"
      unfolding m using set_sort_desc by (metis in_set_takeD)
    then show "case p_creation x of Some t \<Rightarrow> key = t | None \<Rightarrow> (\<exists>i. key = clock i)"
      by (rule key_of_with_sort_keys)
  qed
  have 4: "0 \<le> limit \<longrightarrow> int (length kxs) \<le> limit"
    unfolding kxs by (simp add: length_py_slice_to)
  from 1 2 3 4 show ?thesis by blast
qed

lemma feed_db_log_rows:
  "get_all_nlog feed_db ''ann@example.com'' 200 = [plain_row, reminder_row, undated_row]"
  by (simp add: get_all_nlog_def feed_db_related sort_desc_def
        reminder_row_def plain_row_def undated_row_def)

lemma feed_db_names:
  "0 \<le> limit \<Longrightarrow> limit \<le> 200 \<Longrightarrow>
   feed_names (list_portal_notifications feed_db (\<lambda>k. 100) limit 0)
     = take (nat limit) [''NL-3'', ''NL-2'', ''NL-1'']"
  "limit < 0 \<Longrightarrow>
   feed_names (list_portal_notifications feed_db (\<lambda>k. 100) limit 0)
     = take (3 - nat (- limit)) [''NL-3'', ''NL-2'', ''NL-1'']"
proof -
  have u: "session_user feed_db = ''ann@example.com''" by (simp add: feed_db_def)
  let ?sc = "seen_column_name feed_db"
  have c: "p_creation (nlog_to_portal_dict feed_db plain_row ?sc) = Some 30"
      "p_creation (nlog_to_portal_dict feed_db reminder_row ?sc) = Some 10"
      "p_creation (nlog_to_portal_dict feed_db undated_row ?sc) = None"
    by (simp_all add: nlog_to_portal_dict_def Let_def reminder_row_def plain_row_def undated_row_def)
  have w: "with_sort_keys (\<lambda>k. 100) 0
             [nlog_to_portal_dict feed_db plain_row ?sc, nlog_to_portal_dict feed_db reminder_row ?sc,
              nlog_to_portal_dict feed_db undated_row ?sc]
           = [(30, nlog_to_portal_dict feed_db plain_row ?sc),
              (10, nlog_to_portal_dict feed_db reminder_row ?sc),
              (100, nlog_to_portal_dict feed_db undated_row ?sc)]"
    by (simp add: c)
  have k: "sort_desc fst
             [(30 :: int, nlog_to_portal_dict feed_db plain_row ?sc),
              (10, nlog_to_portal_dict feed_db reminder_row ?sc),
              (100, nlog_to_portal_dict feed_db undated_row ?sc)]
           = [(100, nlog_to_portal_dict feed_db undated_row ?sc),
              (30, nlog_to_portal_dict feed_db plain_row ?sc),
              (10, nlog_to_portal_dict feed_db reminder_row ?sc)]"
    by (simp add: sort_desc_def)
  have n: "p_name (nlog_to_portal_dict feed_db undated_row (seen_column_name feed_db)) = ''NL-3''"
      "p_name (nlog_to_portal_dict feed_db plain_row (seen_column_name feed_db)) = ''NL-2''"
      "p_name (nlog_to_portal_dict feed_db reminder_row (seen_column_name feed_db)) = ''NL-1''"
    by (simp_all add: nlog_to_portal_dict_def Let_def reminder_row_def plain_row_def undated_row_def)
  show "0 \<le> limit \<Longrightarrow> limit \<le> 200 \<Longrightarrow>
   feed_names (list_portal_notifications feed_db (\<lambda>k. 100) limit 0)
     = take (nat limit) [''NL-3'', ''NL-2'', ''NL-1'']"
    by (simp add: feed_names_def list_portal_notifications_def list_portal_notifications_keyed_def
          Let_def u max_def feed_db_log_rows c k py_slice_to_def n flip: take_map)
  show "limit < 0 \<Longrightarrow>
   feed_names (list_portal_notifications feed_db (\<lambda>k. 100) limit 0)
     = take (3 - nat (- limit)) [''NL-3'', ''NL-2'', ''NL-1'']"
    by (simp add: feed_names_def list_portal_notifications_def list_portal_notifications_keyed_def
          Let_def u max_def feed_db_log_rows c k py_slice_to_def n numeral_3_eq_3 flip: take_map)
qed

theorem portal_feed_sorted_and_bounded_witness:
  "(\<exists>kxs. list_portal_notifications_keyed feed_db (\<lambda>k. 100) 2 0 = Inr kxs)
   \<and> (0::int) \<le> 2
   \<and> int (length (feed_names (list_portal_notifications feed_db (\<lambda>k. 100) 2 0))) \<le> 2"
proof -
  obtain kxs where k: "list_portal_notifications_keyed feed_db (\<lambda>k. 100) 2 0 = Inr kxs"
    using portal_feed_returns [of 0 feed_db "\<lambda>k. 100" 2] by auto
  from portal_feed_sorted_and_bounded [OF k]
  have "list_portal_notifications feed_db (\<lambda>k. 100) 2 0 = Inr (map snd kxs)"
    and "int (length kxs) \<le> 2" by simp_all
  then have "int (length (feed_names (list_portal_notifications feed_db (\<lambda>k. 100) 2 0))) \<le> 2"
    by (simp add: feed_names_def)
  with k show ?thesis by auto
qed

text \<open>
  With the limit \<open>-1\<close> the slice drops the last row only: two rows come back.
\<close>

theorem portal_feed_negative_limit_counterexample:
  "feed_names (list_portal_notifications feed_db (\<lambda>k. 100) (- 1) 0) = [''NL-3'', ''NL-2'']
   \<and> \<not> int (length (feed_names (list_portal_notifications feed_db (\<lambda>k. 100) (- 1) 0))) \<le> - 1"
  using feed_db_names(2) [of "- 1"] by simp



section \<open>Assignment authorizer: properties\<close>

lemma fold_add_assignment:
  "fold (\<lambda>u. add_assignment (f u)) us st = st @ map f us"
  by (induction us arbitrary: st) (simp_all add: add_assignment_def)

lemma team_db_roster:
  "team_members_of team_db ''mgr@example.com'' = {''rep1@example.com'', ''rep2@example.com''}"
  by (simp add: team_members_of_def team_led_by_def member_user_col_def team_db_def
        user_member_def Let_def del: set_filter)

lemma team_db_manager:
  "actor team_db = ''mgr@example.com''"
  "\<not> is_privileged team_db ''mgr@example.com''"
  "is_sales_manager team_db ''mgr@example.com''"
  by (simp_all add: team_db_def is_privileged_def is_sales_manager_def has_role_def
        or_session_user_def)

text \<open>
  Claim C2, as amended. For a caller who is not privileged: without read permission
  on the target document the call raises a permission error and leaves the
  assignment records as they were; with read permission, a Sales Manager who lists a
  user outside the resolved roster gets a permission error that names the users
  outside it, and the records are unchanged; a Sales Manager who lists only roster
  users succeeds, and the call adds one record per listed user, in order; a caller
  who is not a Sales Manager gets a permission error, with or without read
  permission, and the records are unchanged. The listed users are the entries of the
  request that are not empty.
\<close>

theorem assign_lead_policy:
  assumes np: "\<not> is_privileged db (actor db)"
  shows "(\<not> can_read db doctype name \<longrightarrow>
            assign_lead db st doctype name users_arg description
              = (Inl (PermissionError ''Not permitted to access this document''), st))
       \<and> (can_read db doctype name \<and> is_sales_manager db (actor db)
            \<and> \<not> set (listed_users users_arg) \<subseteq> team_members_of db (actor db) \<longrightarrow>
            assign_lead db st doctype name users_arg description
              = (Inl (PermissionError (''You can only assign to your team members: ''
                        @ join '', '' (filter (\<lambda>u. u \<notin> team_members_of db (actor db))
                                         (listed_users users_arg)))), st))
       \<and> (can_read db doctype name \<and> is_sales_manager db (actor db)
            \<and> set (listed_users users_arg) \<subseteq> team_members_of db (actor db) \<longrightarrow>
            assign_lead db st doctype name users_arg description
              = (Inr \<lparr> r_ok = True, r_assigned_to = listed_users users_arg \<rparr>,
                 st @ assignments_for doctype name description (listed_users users_arg)))
       \<and> (\<not> is_sales_manager db (actor db) \<longrightarrow>
            (\<exists>msg. assign_lead db st doctype name users_arg description
                      = (Inl (PermissionError msg), st)))"
proof -
  have ill: "(filter (\<lambda>u. u \<notin> team_members_of db (actor db)) (listed_users users_arg) = [])
               = (set (listed_users users_arg) \<subseteq> team_members_of db (actor db))"
    by (auto simp: filter_empty_conv)
  show ?thesis
    using np ill
    by (simp add: assign_lead_def Let_def fold_add_assignment assignments_for_def
          listed_users_def)
qed

theorem assign_lead_policy_witness:
  "\<not> is_privileged team_db (actor team_db)
   \<and> assign_lead team_db [] ''CRM Lead'' ''L1''
        (Some [''rep1@example.com'', [], ''rep2@example.com'']) None
       = (Inr \<lparr> r_ok = True, r_assigned_to = [''rep1@example.com'', ''rep2@example.com''] \<rparr>,
          assignments_for ''CRM Lead'' ''L1'' None [''rep1@example.com'', ''rep2@example.com''])
   \<and> assign_lead team_db [] ''CRM Lead'' ''L1'' (Some [''else@example.com'']) None
       = (Inl (PermissionError ''You can only assign to your team members: else@example.com''), [])"
proof -
  have np: "\<not> is_privileged team_db (actor team_db)"
    by (simp add: team_db_manager)
  have sm: "is_sales_manager team_db (actor team_db)"
    by (simp add: team_db_manager)
  have rd: "can_read team_db ''CRM Lead'' ''L1''" by (simp add: team_db_def)
  have ro: "team_members_of team_db (actor team_db)
              = {''rep1@example.com'', ''rep2@example.com''}"
    by (simp add: team_db_manager team_db_roster)
  have l1: "listed_users (Some [''rep1@example.com'', [], ''rep2@example.com''])
              = [''rep1@example.com'', ''rep2@example.com'']"
    by (simp add: listed_users_def)
  have l2: "listed_users (Some [''else@example.com'']) = [''else@example.com'']"
    by (simp add: listed_users_def)
  show ?thesis
    using assign_lead_policy [OF np, where doctype = "''CRM Lead''" and name = "''L1''"
            and users_arg = "Some [''rep1@example.com'', [], ''rep2@example.com'']"
            and st = "[]" and description = None]
          assign_lead_policy [OF np, where doctype = "''CRM Lead''" and name = "''L1''"
            and users_arg = "Some [''else@example.com'']" and st = "[]" and description = None]
          np sm rd
    by (simp add: ro l1 l2)
qed

text \<open>
  A Sales Manager without read permission on the lead lists a member of the roster:
  the call is rejected.
\<close>

theorem assign_lead_unreadable_counterexample:
  "is_sales_manager unreadable_db (actor unreadable_db)
   \<and> \<not> is_privileged unreadable_db (actor unreadable_db)
   \<and> set [''rep1@example.com''] \<subseteq> team_members_of unreadable_db (actor unreadable_db)
   \<and> assign_lead unreadable_db [] ''CRM Lead'' ''L1'' (Some [''rep1@example.com'']) None
       = (Inl (PermissionError ''Not permitted to access this document''), [])"
proof -
  have 1: "is_sales_manager unreadable_db (actor unreadable_db)"
      "\<not> is_privileged unreadable_db (actor unreadable_db)"
    by (simp_all add: unreadable_db_def team_db_def is_privileged_def is_sales_manager_def
          has_role_def or_session_user_def)
  have 2: "team_members_of unreadable_db (actor unreadable_db)
             = {''rep1@example.com'', ''rep2@example.com''}"
    by (simp add: team_members_of_def team_led_by_def member_user_col_def unreadable_db_def
          team_db_def user_member_def Let_def del: set_filter)
  have 3: "assign_lead unreadable_db [] ''CRM Lead'' ''L1'' (Some [''rep1@example.com'']) None
       = (Inl (PermissionError ''Not permitted to access this document''), [])"
    by (simp add: assign_lead_def Let_def unreadable_db_def)
  from 1 2 3 show ?thesis by simp
qed




section \<open>Lead visibility: properties\<close>

lemma assigned_self_iff:
  "assigned_self db user lead = holds_open_assignment db ''CRM Lead'' lead user"
  by (simp add: assigned_self_def holds_open_assignment_def)

lemma assigned_team_iff:
  "assigned_team db user lead
     = (\<exists>v. join_returns_member db user v \<and> holds_open_assignment db ''CRM Lead'' lead v)"
  unfolding assigned_team_def join_returns_member_def holds_open_assignment_def
    list_ex_iff Let_def
  by (rule iffI; clarsimp; metis)

lemma led_members_iff:
  "Some v \<in> set (led_members db user) = join_returns_member db user v"
  unfolding led_members_def join_returns_member_def list_ex_iff Let_def
  by (simp add: image_iff) (metis (no_types, lifting))

lemma led_member_inline:
  "list_ex (\<lambda>mem. truthy mem \<and> or_empty mem \<in> set al) (led_members db user)
     = (\<exists>v. v \<noteq> [] \<and> join_returns_member db user v \<and> v \<in> set al)"
proof -
  have "list_ex (\<lambda>mem. truthy mem \<and> or_empty mem \<in> set al) (led_members db user)
          = (\<exists>v. Some v \<in> set (led_members db user) \<and> v \<noteq> [] \<and> v \<in> set al)"
    unfolding list_ex_iff
  proof (rule iffI)
    assume "\<exists>mem\<in>set (led_members db user). truthy mem \<and> or_empty mem \<in> set al"
    then obtain mem where m: "mem \<in> set (led_members db user)" "truthy mem"
        "or_empty mem \<in> set al"
      by blast
    from m(2) obtain v where "mem = Some v" by (cases mem) simp_all
    with m show "\<exists>v. Some v \<in> set (led_members db user) \<and> v \<noteq> [] \<and> v \<in> set al" by auto
  next
    assume "\<exists>v. Some v \<in> set (led_members db user) \<and> v \<noteq> [] \<and> v \<in> set al"
    then obtain v where "Some v \<in> set (led_members db user)" "v \<noteq> []" "v \<in> set al" by blast
    then show "\<exists>mem\<in>set (led_members db user). truthy mem \<and> or_empty mem \<in> set al"
      by (intro bexI[of _ "Some v"]) auto
  qed
  then show ?thesis by (auto simp: led_members_iff)
qed

lemma led_member_todo:
  "(led_members db user \<noteq> [] \<and> filter truthy (led_members db user) \<noteq> []
     \<and> list_ex (\<lambda>td. open_todo_on dt nm td
                      \<and> td_allocated_to td \<in> set (filter truthy (led_members db user))) (todos db))
     = (\<exists>v. v \<noteq> [] \<and> join_returns_member db user v \<and> holds_open_assignment db dt nm v)"
proof (rule iffI)
  assume "led_members db user \<noteq> [] \<and> filter truthy (led_members db user) \<noteq> []
     \<and> list_ex (\<lambda>td. open_todo_on dt nm td
                      \<and> td_allocated_to td \<in> set (filter truthy (led_members db user))) (todos db)"
  then obtain td where td: "td \<in> set (todos db)" "open_todo_on dt nm td"
      "td_allocated_to td \<in> set (led_members db user)" "truthy (td_allocated_to td)"
    by (auto simp: list_ex_iff)
  then obtain v where v: "td_allocated_to td = Some v" "v \<noteq> []"
    by (cases "td_allocated_to td") auto
  with td have "join_returns_member db user v" by (simp add: led_members_iff)
  moreover from td v have "holds_open_assignment db dt nm v"
    by (auto simp: holds_open_assignment_def list_ex_iff)
  ultimately show "\<exists>v. v \<noteq> [] \<and> join_returns_member db user v
                      \<and> holds_open_assignment db dt nm v"
    using v by blast
next
  assume "\<exists>v. v \<noteq> [] \<and> join_returns_member db user v \<and> holds_open_assignment db dt nm v"
  then obtain v where v: "v \<noteq> []" "join_returns_member db user v"
      "holds_open_assignment db dt nm v" by blast
  then have mem: "Some v \<in> set (led_members db user)" by (simp add: led_members_iff)
  then have fv: "Some v \<in> set (filter truthy (led_members db user))" using v by simp
  then have "filter truthy (led_members db user) \<noteq> []" by (metis empty_iff empty_set)
  moreover note fv
  moreover from v obtain td where "td \<in> set (todos db)" "open_todo_on dt nm td"
      "td_allocated_to td = Some v"
    by (auto simp: holds_open_assignment_def list_ex_iff)
  ultimately show "led_members db user \<noteq> [] \<and> filter truthy (led_members db user) \<noteq> []
     \<and> list_ex (\<lambda>td. open_todo_on dt nm td
                      \<and> td_allocated_to td \<in> set (filter truthy (led_members db user))) (todos db)"
    using mem by (auto simp: list_ex_iff)
qed

text \<open>What the two functions compute for a signed-in user without the System Manager
  role, in terms of the rows their join returns.\<close>

lemma row_visible_by_join:
  assumes "user \<noteq> []" and "user \<noteq> ''Guest''"
    and "''System Manager'' \<notin> set (roles_of db user)"
  shows "row_visible (get_permission_query_conditions db user) lead
           = (holds_open_assignment db ''CRM Lead'' lead user
              \<or> (\<exists>v. join_returns_member db user v
                     \<and> holds_open_assignment db ''CRM Lead'' lead v))"
  using assms
  by (simp add: get_permission_query_conditions_def assigned_self_iff assigned_team_iff)

lemma has_permission_by_join:
  assumes "user \<noteq> []" and "user \<noteq> ''Guest''"
    and nsm: "''System Manager'' \<notin> set (roles_of db user)"
  shows "has_permission db doc ptype user
           = (user \<in> set (inline_assignees doc)
              \<or> holds_open_assignment db (d_doctype doc) (d_name doc) user
              \<or> (\<exists>v. v \<noteq> [] \<and> join_returns_member db user v
                     \<and> (v \<in> set (inline_assignees doc)
                         \<or> holds_open_assignment db (d_doctype doc) (d_name doc) v)))"
proof -
  let ?al = "inline_assignees doc"
  have "has_permission db doc ptype user
          = (user \<in> set ?al
             \<or> holds_open_assignment db (d_doctype doc) (d_name doc) user
             \<or> list_ex (\<lambda>mem. truthy mem \<and> or_empty mem \<in> set ?al) (led_members db user)
             \<or> (led_members db user \<noteq> [] \<and> filter truthy (led_members db user) \<noteq> []
                 \<and> list_ex (\<lambda>td. open_todo_on (d_doctype doc) (d_name doc) td
                      \<and> td_allocated_to td \<in> set (filter truthy (led_members db user)))
                     (todos db)))"
    using assms
    by (simp add: has_permission_def Let_def holds_open_assignment_def)
  then show ?thesis
    unfolding led_member_inline led_member_todo by blast
qed

lemma member_of_led_team_joined:
  "member_of_led_team db user v \<Longrightarrow> v \<noteq> [] \<and> join_returns_member db user v"
  unfolding member_of_led_team_def join_returns_member_def list_ex_iff
  by blast

lemma roster_rows_joined:
  assumes "led_rows_are_roster_rows db user"
  shows "join_returns_member db user v = member_of_led_team db user v"
proof
  assume "join_returns_member db user v"
  then obtain t m where tm: "t \<in> set (teams db)" "t_team_leader t = Some user"
      "m \<in> set (members db)" "m_parent m = Some (t_name t)"
      "m_field m (snd (member_user_col db)) = Some v"
    unfolding join_returns_member_def list_ex_iff by blast
  with assms have "m_parenttype m = Some ''Team''" "v \<noteq> []"
    unfolding led_rows_are_roster_rows_def list_all_iff by auto
  with tm show "member_of_led_team db user v"
    unfolding member_of_led_team_def list_ex_iff by blast
next
  assume "member_of_led_team db user v"
  then show "join_returns_member db user v" by (simp add: member_of_led_team_joined)
qed

text \<open>The roster that \<open>assign_lead\<close> resolves is made of such members.\<close>

lemma roster_member_of_led_team:
  assumes "v \<in> team_members_of db user"
  shows "member_of_led_team db user v"
proof -
  from assms obtain tm where tm: "team_led_by db user = Some tm" "tm \<noteq> []"
    by (auto simp: team_members_of_def split: option.splits if_splits)
  then obtain t where t: "t \<in> set (teams db)" "t_team_leader t = Some user" "t_name t = tm"
  proof -
    from tm(1) obtain t ts where "filter (\<lambda>t. t_team_leader t = Some user) (teams db) = t # ts"
        and n: "t_name t = tm"
      by (auto simp: team_led_by_def split: list.splits)
    then have "t \<in> set (filter (\<lambda>t. t_team_leader t = Some user) (teams db))" by simp
    then have "t \<in> set (teams db)" "t_team_leader t = Some user" by simp_all
    with n that show ?thesis by blast
  qed
  from assms tm obtain mem where mem:
      "mem \<in> set (map (\<lambda>m. m_field m (snd (member_user_col db)))
                 (filter (\<lambda>m. m_parent m = Some tm \<and> m_parenttype m = Some ''Team'')
                    (members db)))"
      "truthy mem" "v = or_empty mem"
    by (auto simp: team_members_of_def Let_def)
  from mem(2,3) have v: "mem = Some v" "v \<noteq> []" by (cases mem; simp)+
  from mem(1) v obtain m where "m \<in> set (members db)" "m_parent m = Some tm"
      "m_parenttype m = Some ''Team''" "m_field m (snd (member_user_col db)) = Some v"
    by auto
  with t v show ?thesis
    unfolding member_of_led_team_def list_ex_iff by blast
qed

text \<open>
  On the store with the stray Member row the list shows the lead to the manager,
  though the roster of the manager is empty.
\<close>

lemma stray_row_example:
  "row_visible (get_permission_query_conditions stray_row_db ''mgr@example.com'') ''L1''
   \<and> team_members_of stray_row_db ''mgr@example.com'' = {}
   \<and> \<not> holds_open_assignment stray_row_db ''CRM Lead'' ''L1'' ''mgr@example.com''"
  by (simp add: get_permission_query_conditions_def assigned_self_def assigned_team_def
        holds_open_assignment_def open_todo_on_def team_members_of_def team_led_by_def
        member_user_col_def stray_row_db_def team_db_def Let_def)

text \<open>
  Claim C6, as amended. The Guest and the empty user see no Lead row and are refused
  by the document check, whatever their roles and assignments. For a signed-in
  user: with the System Manager role the list query has no condition and the
  document check grants. Without that role, a Lead row is in the list results
  whenever the user holds an open assignment on it, or leads a team one of whose
  members holds one; the document check grants whenever the user is in the inline
  assignee list of the document or holds an open assignment on it, or a member of a
  team the user leads is in that list or holds one; and when every Member row filed
  under a team the user leads is a child of the Team and names a user, these are
  exactly the rows the user sees and exactly the documents the check grants. A
  member of a team is a named user linked by a Member row that is a child of the
  Team, as in the roster of the authorizer.
\<close>

theorem lead_visibility:
  "(user = [] \<or> user = ''Guest'' \<longrightarrow>
      \<not> row_visible (get_permission_query_conditions db user) lead
      \<and> \<not> has_permission db doc ptype user)
   \<and> (user \<noteq> [] \<and> user \<noteq> ''Guest'' \<and> ''System Manager'' \<in> set (roles_of db user) \<longrightarrow>
        get_permission_query_conditions db user = Unrestricted
        \<and> has_permission db doc ptype user)
   \<and> (user \<noteq> [] \<and> user \<noteq> ''Guest'' \<and> ''System Manager'' \<notin> set (roles_of db user) \<longrightarrow>
        (holds_open_assignment db ''CRM Lead'' lead user
           \<or> (\<exists>v. member_of_led_team db user v
                  \<and> holds_open_assignment db ''CRM Lead'' lead v)
         \<longrightarrow> row_visible (get_permission_query_conditions db user) lead)
        \<and> (user \<in> set (inline_assignees doc)
             \<or> holds_open_assignment db (d_doctype doc) (d_name doc) user
             \<or> (\<exists>v. member_of_led_team db user v
                    \<and> (v \<in> set (inline_assignees doc)
                        \<or> holds_open_assignment db (d_doctype doc) (d_name doc) v))
           \<longrightarrow> has_permission db doc ptype user)
        \<and> (led_rows_are_roster_rows db user \<longrightarrow>
             row_visible (get_permission_query_conditions db user) lead
               = (holds_open_assignment db ''CRM Lead'' lead user
                  \<or> (\<exists>v. member_of_led_team db user v
                         \<and> holds_open_assignment db ''CRM Lead'' lead v))
             \<and> has_permission db doc ptype user
               = (user \<in> set (inline_assignees doc)
                  \<or> holds_open_assignment db (d_doctype doc) (d_name doc) user
                  \<or> (\<exists>v. member_of_led_team db user v
                         \<and> (v \<in> set (inline_assignees doc)
                             \<or> holds_open_assignment db (d_doctype doc) (d_name doc) v)))))"
proof (intro conjI impI)
  assume "user = [] \<or> user = ''Guest''"
  then show "\<not> row_visible (get_permission_query_conditions db user) lead"
    by (auto simp: get_permission_query_conditions_def)
next
  assume "user = [] \<or> user = ''Guest''"
  then show "\<not> has_permission db doc ptype user"
    by (auto simp: has_permission_def)
next
  assume "user \<noteq> [] \<and> user \<noteq> ''Guest'' \<and> ''System Manager'' \<in> set (roles_of db user)"
  then show "get_permission_query_conditions db user = Unrestricted"
    by (simp add: get_permission_query_conditions_def)
next
  assume "user \<noteq> [] \<and> user \<noteq> ''Guest'' \<and> ''System Manager'' \<in> set (roles_of db user)"
  then show "has_permission db doc ptype user"
    by (simp add: has_permission_def)
next
  assume u: "user \<noteq> [] \<and> user \<noteq> ''Guest'' \<and> ''System Manager'' \<notin> set (roles_of db user)"
  assume "holds_open_assignment db ''CRM Lead'' lead user
           \<or> (\<exists>v. member_of_led_team db user v
                  \<and> holds_open_assignment db ''CRM Lead'' lead v)"
  then have "holds_open_assignment db ''CRM Lead'' lead user
           \<or> (\<exists>v. join_returns_member db user v
                  \<and> holds_open_assignment db ''CRM Lead'' lead v)"
    using member_of_led_team_joined by blast
  with u show "row_visible (get_permission_query_conditions db user) lead"
    by (simp add: row_visible_by_join)
next
  assume u: "user \<noteq> [] \<and> user \<noteq> ''Guest'' \<and> ''System Manager'' \<notin> set (roles_of db user)"
  assume "user \<in> set (inline_assignees doc)
             \<or> holds_open_assignment db (d_doctype doc) (d_name doc) user
             \<or> (\<exists>v. member_of_led_team db user v
                    \<and> (v \<in> set (inline_assignees doc)
                        \<or> holds_open_assignment db (d_doctype doc) (d_name doc) v))"
  then have "user \<in> set (inline_assignees doc)
             \<or> holds_open_assignment db (d_doctype doc) (d_name doc) user
             \<or> (\<exists>v. v \<noteq> [] \<and> join_returns_member db user v
                    \<and> (v \<in> set (inline_assignees doc)
                        \<or> holds_open_assignment db (d_doctype doc) (d_name doc) v))"
    using member_of_led_team_joined by blast
  with u show "has_permission db doc ptype user"
    by (simp add: has_permission_by_join)
next
  assume u: "user \<noteq> [] \<and> user \<noteq> ''Guest'' \<and> ''System Manager'' \<notin> set (roles_of db user)"
  assume r: "led_rows_are_roster_rows db user"
  from u show "row_visible (get_permission_query_conditions db user) lead
               = (holds_open_assignment db ''CRM Lead'' lead user
                  \<or> (\<exists>v. member_of_led_team db user v
                         \<and> holds_open_assignment db ''CRM Lead'' lead v))"
    by (simp add: row_visible_by_join roster_rows_joined [OF r])
next
  assume u: "user \<noteq> [] \<and> user \<noteq> ''Guest'' \<and> ''System Manager'' \<notin> set (roles_of db user)"
  assume r: "led_rows_are_roster_rows db user"
  have jm: "\<And>v. member_of_led_team db user v = (v \<noteq> [] \<and> join_returns_member db user v)"
    using roster_rows_joined [OF r] member_of_led_team_joined by blast
  have hp: "has_permission db doc ptype user
              = (user \<in> set (inline_assignees doc)
                 \<or> holds_open_assignment db (d_doctype doc) (d_name doc) user
                 \<or> (\<exists>v. v \<noteq> [] \<and> join_returns_member db user v
                        \<and> (v \<in> set (inline_assignees doc)
                            \<or> holds_open_assignment db (d_doctype doc) (d_name doc) v)))"
    using u by (simp add: has_permission_by_join)
  show "has_permission db doc ptype user
               = (user \<in> set (inline_assignees doc)
                  \<or> holds_open_assignment db (d_doctype doc) (d_name doc) user
                  \<or> (\<exists>v. member_of_led_team db user v
                         \<and> (v \<in> set (inline_assignees doc)
                             \<or> holds_open_assignment db (d_doctype doc) (d_name doc) v)))"
    unfolding hp jm by blast
qed

lemma team_db_roster_rows: "led_rows_are_roster_rows team_db user"
  by (simp add: led_rows_are_roster_rows_def member_user_col_def team_db_def user_member_def)

theorem lead_visibility_witness:
  "''mgr@example.com'' \<noteq> [] \<and> ''mgr@example.com'' \<noteq> ''Guest''
   \<and> ''System Manager'' \<notin> set (roles_of team_db ''mgr@example.com'')
   \<and> led_rows_are_roster_rows team_db ''mgr@example.com''
   \<and> member_of_led_team team_db ''mgr@example.com'' ''rep1@example.com''
   \<and> row_visible (get_permission_query_conditions team_db ''mgr@example.com'') ''L1''
   \<and> has_permission team_db lead_L1 ''read'' ''mgr@example.com''
   \<and> \<not> row_visible (get_permission_query_conditions team_db ''else@example.com'') ''L1''
   \<and> get_permission_query_conditions team_db ''root@example.com'' = Unrestricted
   \<and> \<not> row_visible (get_permission_query_conditions team_db ''Guest'') ''L1''"
proof -
  have r: "''System Manager'' \<notin> set (roles_of team_db ''mgr@example.com'')"
      "''System Manager'' \<notin> set (roles_of team_db ''else@example.com'')"
      "''System Manager'' \<in> set (roles_of team_db ''root@example.com'')"
    by (simp_all add: team_db_def)
  have m: "member_of_led_team team_db ''mgr@example.com'' ''rep1@example.com''"
    by (simp add: member_of_led_team_def member_user_col_def team_db_def user_member_def)
  have h: "holds_open_assignment team_db ''CRM Lead'' ''L1'' ''rep1@example.com''"
    by (simp add: holds_open_assignment_def open_todo_on_def team_db_def)
  have d: "d_doctype lead_L1 = ''CRM Lead''" "d_name lead_L1 = ''L1''"
    by (simp_all add: lead_L1_def)
  have e: "\<not> holds_open_assignment team_db ''CRM Lead'' ''L1'' ''else@example.com''"
      "\<And>v. \<not> member_of_led_team team_db ''else@example.com'' v"
    by (simp_all add: holds_open_assignment_def open_todo_on_def member_of_led_team_def
          team_db_def)
  have 1: "row_visible (get_permission_query_conditions team_db ''mgr@example.com'') ''L1''"
    using lead_visibility [of "''mgr@example.com''" team_db "''L1''" lead_L1 "''read''"] r m h
    by auto
  have 2: "has_permission team_db lead_L1 ''read'' ''mgr@example.com''"
    using lead_visibility [of "''mgr@example.com''" team_db "''L1''" lead_L1 "''read''"] r m h d
    by auto
  have 3: "\<not> row_visible (get_permission_query_conditions team_db ''else@example.com'') ''L1''"
    using lead_visibility [of "''else@example.com''" team_db "''L1''" lead_L1 "''read''"] r e
      team_db_roster_rows [of "''else@example.com''"]
    by simp
  have 4: "get_permission_query_conditions team_db ''root@example.com'' = Unrestricted"
    using lead_visibility [of "''root@example.com''" team_db "''L1''" lead_L1 "''read''"] r
    by simp
  have 5: "\<not> row_visible (get_permission_query_conditions team_db ''Guest'') ''L1''"
    using lead_visibility [of "''Guest''" team_db "''L1''" lead_L1 "''read''"] by simp
  from r m 1 2 3 4 5 team_db_roster_rows [of "''mgr@example.com''"] show ?thesis by simp
qed

text \<open>
  The Guest user holds an open assignment on a lead and has no System Manager role,
  and yet does not see the lead.
\<close>

theorem lead_visibility_guest_counterexample:
  "holds_open_assignment guest_db ''CRM Lead'' ''L1'' ''Guest''
   \<and> ''System Manager'' \<notin> set (roles_of guest_db ''Guest'')
   \<and> \<not> row_visible (get_permission_query_conditions guest_db ''Guest'') ''L1''
   \<and> \<not> has_permission guest_db lead_L1 ''read'' ''Guest''"
  by (simp add: holds_open_assignment_def open_todo_on_def guest_db_def team_db_def
        get_permission_query_conditions_def has_permission_def)


section \<open>Mobile API: properties\<close>

subsection \<open>Host validation\<close>

lemma validate_host_iff: "(validate_host env = Inr ()) = host_accepted env"
  by (auto simp: validate_host_def host_accepted_def host_of_request_def explicitly_configured_def
        site_name_lower_def allowed_domains_try_def Let_def
      split: option.splits if_splits sum.splits)

lemma validate_host_error:
  "validate_host env \<noteq> Inr () \<Longrightarrow> \<exists>msg. validate_host env = Inl (ValidationError msg)"
  by (auto simp: validate_host_def Let_def split: option.splits if_splits sum.splits)

lemma localhost_needs_configuration:
  assumes "host_of_request env = Some ''localhost''" and "host_accepted env"
  shows "''localhost'' \<in> set (explicitly_configured env)
         \<or> (explicitly_configured env = [] \<and> site_name_lower env = ''localhost'')"
  using assms by (auto simp: host_accepted_def)

text \<open>
  Claim C1, as amended. Host validation passes exactly when the request has a host
  (the first entry of \<open>X-Forwarded-Host\<close> when that header is set, the \<open>Host\<close> header
  otherwise), the site name is known, and the host, lowercased and without its port,
  is one of the domains the site configuration names, or equals the site name when
  the configuration names no domain or cannot be read. \<open>get_oauth_config\<close> returns a
  configuration only for such a host; for every other request it raises a
  validation error and returns no client id; for such a host it returns the client
  id of the settings whenever the settings are found or created with one.
\<close>

theorem oauth_config_host_gate:
  "(validate_host env = Inr ()) = host_accepted env
   \<and> (\<forall>cfg. get_oauth_config env = Inr cfg \<longrightarrow> host_accepted env)
   \<and> (\<not> host_accepted env \<longrightarrow> (\<exists>msg. get_oauth_config env = Inl (ValidationError msg)))
   \<and> (\<forall>s. host_accepted env \<and> ensure_mobile_oauth_settings env = Inr s \<and> truthy (client_id s)
          \<longrightarrow> (\<exists>cfg. get_oauth_config env = Inr cfg
                      \<and> cfg_client_id cfg = or_empty (client_id s)))"
proof (intro conjI allI impI)
  show "(validate_host env = Inr ()) = host_accepted env" by (rule validate_host_iff)
next
  fix cfg assume "get_oauth_config env = Inr cfg"
  then have "validate_host env = Inr ()"
    by (auto simp: get_oauth_config_def split: sum.splits if_splits)
  then show "host_accepted env" by (simp add: validate_host_iff)
next
  assume "\<not> host_accepted env"
  then have "validate_host env \<noteq> Inr ()" by (simp add: validate_host_iff)
  then obtain msg where "validate_host env = Inl (ValidationError msg)"
    using validate_host_error by blast
  then show "\<exists>msg. get_oauth_config env = Inl (ValidationError msg)"
    by (simp add: get_oauth_config_def)
next
  fix s
  assume "host_accepted env \<and> ensure_mobile_oauth_settings env = Inr s \<and> truthy (client_id s)"
  then have "validate_host env = Inr ()" "ensure_mobile_oauth_settings env = Inr s"
      "truthy (client_id s)"
    by (simp_all add: validate_host_iff)
  then show "\<exists>cfg. get_oauth_config env = Inr cfg \<and> cfg_client_id cfg = or_empty (client_id s)"
    by (simp add: get_oauth_config_def)
qed

lemma configured_env_host:
  "host_of_request configured_env = Some ''portal.example.com''"
  by (simp add: host_of_request_def configured_env_def request_host_def normalize_host_def
        before_sep_def strip_def is_space_def lower_def lower_char_def)

lemma configured_env_domains:
  "explicitly_configured configured_env = [''portal.example.com'']"
  by (simp add: explicitly_configured_def configured_env_def configured_domains_def
        truthy_domains_def strip_def is_space_def lower_def lower_char_def)

lemma configured_env_settings:
  "ensure_mobile_oauth_settings configured_env = Inr stored_oauth"
  by (simp add: ensure_mobile_oauth_settings_def configured_env_def stored_oauth_def Let_def)

theorem oauth_config_host_gate_witness:
  "host_accepted configured_env
   \<and> validate_host configured_env = Inr ()
   \<and> map_sum id cfg_client_id (get_oauth_config configured_env) = Inr ''abc123''
   \<and> \<not> host_accepted
          (configured_env \<lparr> local_request :=
             Some \<lparr> x_forwarded_host = None, host_header = Some ''facebook.com'' \<rparr> \<rparr>)
   \<and> isl (get_oauth_config
          (configured_env \<lparr> local_request :=
             Some \<lparr> x_forwarded_host = None, host_header = Some ''facebook.com'' \<rparr> \<rparr>))"
proof -
  let ?other = "configured_env \<lparr> local_request :=
             Some \<lparr> x_forwarded_host = None, host_header = Some ''facebook.com'' \<rparr> \<rparr>"
  have a: "host_accepted configured_env"
    by (simp add: host_accepted_def configured_env_host configured_env_domains)
       (simp add: configured_env_def)
  have t: "truthy (client_id stored_oauth)" "or_empty (client_id stored_oauth) = ''abc123''"
    by (simp_all add: stored_oauth_def)
  have oh: "host_of_request ?other = Some ''facebook.com''"
    by (simp add: host_of_request_def configured_env_def request_host_def normalize_host_def
          before_sep_def strip_def is_space_def lower_def lower_char_def)
  have od: "explicitly_configured ?other = [''portal.example.com'']"
    using configured_env_domains by (simp add: explicitly_configured_def)
  have n: "\<not> host_accepted ?other"
    by (simp add: host_accepted_def oh od)
  have 1: "validate_host configured_env = Inr ()"
    using oauth_config_host_gate [of configured_env] a by simp
  have 2: "map_sum id cfg_client_id (get_oauth_config configured_env) = Inr ''abc123''"
    using oauth_config_host_gate [of configured_env] a t configured_env_settings by auto
  have 3: "isl (get_oauth_config ?other)"
    using oauth_config_host_gate [of ?other] n by auto
  from a 1 2 n 3 show ?thesis by simp
qed

text \<open>
  A site whose configuration names no domain, asked under its bare site name: the
  configuration and its client id are returned.
\<close>

theorem oauth_config_bare_site_counterexample:
  "explicitly_configured bare_site_env = []
   \<and> host_of_request bare_site_env = Some ''crm.example.com''
   \<and> get_oauth_config bare_site_env
       = Inr \<lparr> cfg_client_id = ''abc123'', cfg_scope = ''all openid'',
                cfg_redirect_uri = ''app.trust://oauth2redirect'' \<rparr>"
proof -
  have 1: "explicitly_configured bare_site_env = []"
    by (simp add: explicitly_configured_def bare_site_env_def configured_domains_def
          truthy_domains_def)
  have 2: "host_of_request bare_site_env = Some ''crm.example.com''"
    by (simp add: host_of_request_def bare_site_env_def request_host_def normalize_host_def
          before_sep_def strip_def is_space_def lower_def lower_char_def)
  have s: "site_name_lower bare_site_env = ''crm.example.com''"
    by (simp add: site_name_lower_def bare_site_env_def configured_env_def
          strip_def is_space_def lower_def lower_char_def)
  have "host_accepted bare_site_env"
    by (simp add: host_accepted_def 1 2 s) (simp add: bare_site_env_def configured_env_def)
  then have v: "validate_host bare_site_env = Inr ()"
    by (simp add: validate_host_iff)
  have e: "ensure_mobile_oauth_settings bare_site_env = Inr stored_oauth"
    by (simp add: ensure_mobile_oauth_settings_def bare_site_env_def configured_env_def
          stored_oauth_def Let_def)
  have 3: "get_oauth_config bare_site_env
       = Inr \<lparr> cfg_client_id = ''abc123'', cfg_scope = ''all openid'',
                cfg_redirect_uri = ''app.trust://oauth2redirect'' \<rparr>"
    by (simp add: get_oauth_config_def v e stored_oauth_def)
  from 1 2 3 show ?thesis by simp
qed

subsection \<open>Task creation\<close>

text \<open>
  Claim C9. A creation with a task type returns a compact task; its status is
  \<open>Todo\<close> when the status was omitted and its priority \<open>Medium\<close> when the priority was
  omitted, and a status or priority that was supplied comes back as supplied. An
  argument that is \<open>None\<close> or the empty string counts as omitted, as the code tests
  \<open>not status\<close>.
\<close>

theorem create_task_defaults:
  assumes "truthy task_type"
  shows "\<exists>c. fst (create_task env title status priority start_date task_type description
                    assigned_to due_date) = Inr c
           \<and> (\<not> truthy status \<longrightarrow> ct_status c = Some ''Todo'')
           \<and> (\<not> truthy priority \<longrightarrow> ct_priority c = Some ''Medium'')
           \<and> (truthy status \<longrightarrow> ct_status c = status)
           \<and> (truthy priority \<longrightarrow> ct_priority c = priority)"
  using assms by (simp add: create_task_def Let_def get_compact_task_def)

theorem create_task_defaults_witness:
  "truthy (Some ''Call'')
   \<and> map_sum id (\<lambda>c. (ct_status c, ct_priority c))
        (fst (create_task five_tasks_env None None (Some ''High'') None (Some ''Call'')
                None None None))
       = Inr (Some ''Todo'', Some ''High'')"
proof -
  have t: "truthy (Some ''Call'')" "\<not> truthy None" "truthy (Some ''High'')" by simp_all
  from create_task_defaults [OF t(1), of five_tasks_env None None "Some ''High''" None None None None]
  obtain c where
    "fst (create_task five_tasks_env None None (Some ''High'') None (Some ''Call'')
            None None None) = Inr c"
    "ct_status c = Some ''Todo''" "ct_priority c = Some ''High''"
    using t by auto
  then show ?thesis by simp
qed

subsection \<open>Pagination of the filtered listing\<close>

lemma effective_limit_pos: "0 \<le> cint limit \<Longrightarrow> 1 \<le> effective_limit limit"
  by (simp add: effective_limit_def)

lemma effective_page_pos: "1 \<le> effective_page page"
  by (simp add: effective_page_def Let_def)

lemma has_next_arith:
  fixes S L T :: int and n :: nat
  assumes "1 \<le> L" "0 \<le> S" "0 \<le> T" "int n = min L (max 0 (T - S))"
  shows "(S + int n < T) = (S + L < T)"
  using assms by auto

text \<open>
  Claim C5. With a limit argument that is not negative, \<open>filter_tasks\<close> returns a
  page. \<open>L\<close> is its page size (the limit, 20 when the limit is absent or 0), \<open>P\<close> its
  page (the page argument, 1 when that is absent or below 1) and \<open>T\<close> its total, the
  count of the tasks under the same filters as the row query. The row query is made
  at offset \<open>(P - 1) * L\<close> with page length \<open>L\<close> and returns
  \<open>min L (max 0 (T - (P - 1) * L))\<close> rows, and \<open>has_next\<close> is true exactly when
  \<open>P * L < T\<close>.
\<close>

theorem filter_tasks_pagination:
  assumes "0 \<le> cint limit"
  shows "\<exists>r rows.
           filter_tasks env date_from date_to importance status limit page order_by = Inr r
         \<and> pg_page r = effective_page page \<and> pg_page_size r = effective_limit limit
         \<and> pg_total r = count_tasks env (build_filters date_from date_to importance status)
         \<and> get_all_tasks env (build_filters date_from date_to importance status)
              (safe_fields env [''name'', ''title'', ''status'', ''priority'', ''start_date'',
                   ''due_date'', ''assigned_to'', ''modified'', ''description''])
              order_by ((pg_page r - 1) * pg_page_size r) (pg_page_size r) = Inr rows
         \<and> pg_data r = map (get_compact_task env) rows
         \<and> int (length rows)
             = min (pg_page_size r) (max 0 (pg_total r - (pg_page r - 1) * pg_page_size r))
         \<and> pg_has_next r = (pg_page r * pg_page_size r < pg_total r)
         \<and> (1 \<le> cint limit \<longrightarrow> pg_page_size r = cint limit)
         \<and> (1 \<le> cint page \<longrightarrow> pg_page r = cint page)"
proof -
  let ?L = "effective_limit limit"
  let ?P = "effective_page page"
  let ?S = "(?P - 1) * ?L"
  let ?flt = "build_filters date_from date_to importance status"
  let ?flds = "safe_fields env [''name'', ''title'', ''status'', ''priority'', ''start_date'',
                   ''due_date'', ''assigned_to'', ''modified'', ''description'']"
  let ?T = "count_tasks env ?flt"
  let ?rows = "map (project_task ?flds)
             (take (nat ?L) (drop (nat ?S)
                   (sort_key (te_order_rank env order_by) (matching_tasks env ?flt))))"
  have L: "1 \<le> ?L" using assms by (rule effective_limit_pos)
  have P: "1 \<le> ?P" by (rule effective_page_pos)
  have S: "0 \<le> ?S" using L P by simp
  have T: "0 \<le> ?T" by (simp add: count_tasks_def)
  have ga: "get_all_tasks env ?flt ?flds order_by ?S ?L = Inr ?rows"
    using L S by (simp add: get_all_tasks_def)
  have len: "int (length ?rows) = min ?L (max 0 (?T - ?S))"
    using L S by (auto simp: count_tasks_def min_def max_def)
  have hn: "(?S + int (length ?rows) < ?T) = (?S + ?L < ?T)"
    using L S T len by (rule has_next_arith)
  have PL: "?S + ?L = ?P * ?L" by (simp add: algebra_simps)
  let ?r = "\<lparr> pg_data = map (get_compact_task env) ?rows, pg_page = ?P, pg_page_size = ?L,
              pg_total = ?T, pg_has_next = (?S + int (length ?rows) < ?T) \<rparr>"
  have ft: "filter_tasks env date_from date_to importance status limit page order_by = Inr ?r"
    using ga by (simp add: filter_tasks_def Let_def)
  have "pg_has_next ?r = (pg_page ?r * pg_page_size ?r < pg_total ?r)"
    using hn PL by simp
  moreover have "1 \<le> cint limit \<longrightarrow> ?L = cint limit" by (simp add: effective_limit_def)
  moreover have "1 \<le> cint page \<longrightarrow> ?P = cint page" by (simp add: effective_page_def Let_def)
  ultimately show ?thesis
    using ft ga len by (intro exI[of _ ?r] exI[of _ ?rows]) simp
qed

lemma five_tasks_count:
  "count_tasks five_tasks_env (build_filters None None None None) = 5"
  by (simp add: count_tasks_def matching_tasks_def build_filters_def five_tasks_env_def)

theorem filter_tasks_pagination_witness:
  "0 \<le> cint (Some 2)
   \<and> map_sum id (\<lambda>r. (pg_page r, pg_page_size r, pg_total r, pg_has_next r))
        (filter_tasks five_tasks_env None None None None (Some 2) (Some 2) ''modified desc'')
       = Inr (2, 2, 5, True)
   \<and> map_sum id (\<lambda>r. (pg_page r, pg_page_size r, pg_total r, pg_has_next r))
        (filter_tasks five_tasks_env None None None None (Some 2) (Some 3) ''modified desc'')
       = Inr (3, 2, 5, False)"
proof -
  have h: "0 \<le> cint (Some 2)" by simp
  from filter_tasks_pagination [OF h, of five_tasks_env None None None None "Some 2"
         "''modified desc''"]
  obtain r where r:
    "filter_tasks five_tasks_env None None None None (Some 2) (Some 2) ''modified desc'' = Inr r"
    "pg_page r = 2" "pg_page_size r = 2" "pg_total r = 5"
    "pg_has_next r = (pg_page r * pg_page_size r < pg_total r)"
    by (auto simp: five_tasks_count)
  from filter_tasks_pagination [OF h, of five_tasks_env None None None None "Some 3"
         "''modified desc''"]
  obtain q where q:
    "filter_tasks five_tasks_env None None None None (Some 2) (Some 3) ''modified desc'' = Inr q"
    "pg_page q = 3" "pg_page_size q = 2" "pg_total q = 5"
    "pg_has_next q = (pg_page q * pg_page_size q < pg_total q)"
    by (auto simp: five_tasks_count)
  from h r q show ?thesis by simp
qed


end
